theory Spec2Isabelle
  imports Main "HOL-Library.AList" "HOL-Library.Word"
begin

section \<open>Python values\<close>

text \<open>
  The configuration document and the update payload are whatever \<open>json.loads\<close> returns:
  \<open>None\<close>, booleans, unbounded integers, floats, strings, lists and dictionaries with string
  keys. A dictionary is an association list in insertion order, as Python dictionaries
  iterate; a float is its IEEE-754 binary64 bit pattern, which the program only tests for
  truth and passes through. A Python \<open>str\<close> is represented by its UTF-8 bytes.
\<close>

datatype json =
    JNull
  | JBool bool
  | JInt int
  | JFloat "64 word"
  | JStr string
  | JArr "json list"
  | JObj "(string \<times> json) list"

text \<open>The exceptions the two programs can meet, as values.\<close>

datatype py_error =
    FileNotFoundError string
  | UnicodeDecodeError
  | JSONDecodeError string
  | AttributeError
  | TypeError
  | IndexError
  | ValueError
  | KeyError string
  | LibraryError string

definition bind_res :: "py_error + 'a \<Rightarrow> ('a \<Rightarrow> py_error + 'b) \<Rightarrow> py_error + 'b" where
  "bind_res m f = (case m of Inl e \<Rightarrow> Inl e | Inr x \<Rightarrow> f x)"

text \<open>Truth value testing (\<open>if x:\<close>).\<close>

fun py_truthy :: "json \<Rightarrow> bool" where
  "py_truthy JNull = False"
| "py_truthy (JBool b) = b"
| "py_truthy (JInt n) = (n \<noteq> 0)"
| "py_truthy (JFloat w) = (push_bit 1 w \<noteq> 0)"
| "py_truthy (JStr s) = (s \<noteq> [])"
| "py_truthy (JArr xs) = (xs \<noteq> [])"
| "py_truthy (JObj kvs) = (kvs \<noteq> [])"

text \<open>\<open>d.get(k, default)\<close>: only a dictionary has the method.\<close>

fun dict_get :: "json \<Rightarrow> string \<Rightarrow> json \<Rightarrow> py_error + json" where
  "dict_get (JObj kvs) k dflt = Inr (case map_of kvs k of Some v \<Rightarrow> v | None \<Rightarrow> dflt)"
| "dict_get _ k dflt = Inl AttributeError"

text \<open>\<open>d.items()\<close>.\<close>

fun dict_items :: "json \<Rightarrow> py_error + (string \<times> json) list" where
  "dict_items (JObj kvs) = Inr kvs"
| "dict_items _ = Inl AttributeError"

text \<open>\<open>x[k]\<close> with a string \<open>k\<close>: a list or a string wants an integer index, the scalars
  are not subscriptable.\<close>

fun getitem :: "json \<Rightarrow> string \<Rightarrow> py_error + json" where
  "getitem (JObj kvs) k = (case map_of kvs k of Some v \<Rightarrow> Inr v | None \<Rightarrow> Inl (KeyError k))"
| "getitem _ k = Inl TypeError"

text \<open>\<open>x[k] = v\<close> with a string \<open>k\<close>: an existing key keeps its place, a new one goes last.\<close>

fun setitem :: "json \<Rightarrow> string \<Rightarrow> json \<Rightarrow> py_error + json" where
  "setitem (JObj kvs) k v = Inr (JObj (AList.update k v kvs))"
| "setitem _ k v = Inl TypeError"

text \<open>\<open>sub in s\<close> on strings.\<close>

fun starts_with :: "string \<Rightarrow> string \<Rightarrow> bool" where
  "starts_with [] s = True"
| "starts_with (p # ps) [] = False"
| "starts_with (p # ps) (c # cs) = (p = c \<and> starts_with ps cs)"

fun str_contains :: "string \<Rightarrow> string \<Rightarrow> bool" where
  "str_contains sub [] = (sub = [])"
| "str_contains sub (c # cs) = (starts_with sub (c # cs) \<or> str_contains sub cs)"

text \<open>\<open>k in x\<close> with a string \<open>k\<close>: key membership in a dictionary, element membership in
  a list, substring test in a string, \<open>TypeError\<close> on a scalar.\<close>

fun py_in :: "string \<Rightarrow> json \<Rightarrow> py_error + bool" where
  "py_in k (JObj kvs) = Inr (map_of kvs k \<noteq> None)"
| "py_in k (JArr xs) = Inr (JStr k \<in> set xs)"
| "py_in k (JStr s) = Inr (str_contains k s)"
| "py_in k _ = Inl TypeError"

text \<open>\<open>xs[i]\<close> on a list, for a non-negative \<open>i\<close>.\<close>

definition list_index :: "'a list \<Rightarrow> nat \<Rightarrow> py_error + 'a" where
  "list_index xs i = (if i < length xs then Inr (xs ! i) else Inl IndexError)"

subsection \<open>Strings and integers\<close>

text \<open>\<open>s.split(sep)\<close> for a non-empty separator: the pieces between the non-overlapping
  occurrences of \<open>sep\<close>, found from the left. An empty separator is a \<open>ValueError\<close> in
  Python; both programs pass literals.\<close>

function split_str :: "string \<Rightarrow> string \<Rightarrow> string list" where
  "split_str sep [] = [[]]"
| "split_str sep (c # cs) =
     (if sep \<noteq> [] \<and> starts_with sep (c # cs)
      then [] # split_str sep (drop (length sep) (c # cs))
      else (case split_str sep cs of
              [] \<Rightarrow> [[c]]
            | p # ps \<Rightarrow> (c # p) # ps))"
  by pat_completeness auto
termination
  by (relation "measure (\<lambda>(sep, s). length s)") auto

definition is_digit :: "char \<Rightarrow> bool" where
  "is_digit c = (48 \<le> (of_char c :: nat) \<and> (of_char c :: nat) \<le> 57)"

definition digit_val :: "char \<Rightarrow> nat" where
  "digit_val c = of_char c - 48"

definition digit_chr :: "nat \<Rightarrow> char" where
  "digit_chr d = ''0123456789'' ! d"

text \<open>Decimal value of a digit string, most significant digit first.\<close>

fun nat_of_digits :: "nat \<Rightarrow> string \<Rightarrow> nat" where
  "nat_of_digits acc [] = acc"
| "nat_of_digits acc (c # cs) = nat_of_digits (10 * acc + digit_val c) cs"

text \<open>The decimal numeral of a number.\<close>

fun str_nat :: "nat \<Rightarrow> string" where
  "str_nat n = (if n < 10 then [digit_chr n] else str_nat (n div 10) @ [digit_chr (n mod 10)])"

declare str_nat.simps [simp del]

definition decimal :: "int \<Rightarrow> string" where
  "decimal i = (if i < 0 then CHR ''-'' # str_nat (nat (- i)) else str_nat (nat i))"

text \<open>
  CPython bounds the conversions between \<open>int\<close> and decimal text. Under the default
  \<open>sys.int_info.default_max_str_digits = 4300\<close>, which neither program changes, \<open>int(s)\<close>
  raises \<open>ValueError\<close> when \<open>s\<close> holds more than 4300 digit characters (leading zeros
  count; sign, surrounding whitespace and underscores do not), and \<open>str(i)\<close>, also as a
  field of an f-string, raises \<open>ValueError\<close> when \<open>i\<close> has more than 4300 decimal digits.
\<close>

definition int_max_str_digits :: nat where
  "int_max_str_digits = 4300"

text \<open>\<open>str(i)\<close> for an integer the program has computed.\<close>

definition str_int :: "int \<Rightarrow> py_error + string" where
  "str_int i =
     (if int_max_str_digits < length (str_nat (nat \<bar>i\<bar>)) then Inl ValueError
      else Inr (decimal i))"

text \<open>The whitespace \<open>int()\<close> skips in an ASCII string: tab, line feed, vertical tab, form
  feed, carriage return, space.\<close>

definition is_c_space :: "char \<Rightarrow> bool" where
  "is_c_space c = (c = CHR '' '' \<or> (9 \<le> (of_char c :: nat) \<and> (of_char c :: nat) \<le> 13))"

definition strip_with :: "(char \<Rightarrow> bool) \<Rightarrow> string \<Rightarrow> string" where
  "strip_with ws s = rev (dropWhile ws (rev (dropWhile ws s)))"

text \<open>The digits of an integer literal: a digit first and last, single underscores allowed
  between digits.\<close>

fun int_body_ok :: "string \<Rightarrow> bool" where
  "int_body_ok [] = False"
| "int_body_ok [c] = is_digit c"
| "int_body_ok (c # d # cs) =
     (is_digit c \<and> (if d = CHR ''_'' then int_body_ok cs else int_body_ok (d # cs)))"

definition int_unsigned :: "string \<Rightarrow> py_error + int" where
  "int_unsigned s =
     (let ds = filter (\<lambda>c. c \<noteq> CHR ''_'') s
      in if \<not> int_body_ok s then Inl ValueError
         else if int_max_str_digits < length ds then Inl ValueError
         else Inr (int (nat_of_digits 0 ds)))"

definition int_ascii :: "string \<Rightarrow> py_error + int" where
  "int_ascii s =
     (case strip_with is_c_space s of
        [] \<Rightarrow> Inl ValueError
      | c # cs \<Rightarrow>
          if c = CHR ''-'' then bind_res (int_unsigned cs) (\<lambda>n. Inr (- n))
          else if c = CHR ''+'' then int_unsigned cs
          else int_unsigned (c # cs))"

definition is_ascii :: "string \<Rightarrow> bool" where
  "is_ascii s = list_all (\<lambda>c. (of_char c :: nat) < 128) s"

section \<open>The interpreter, the libraries and the machine\<close>

text \<open>
  What the programs take from outside their own source is a parameter of the model: the
  \<open>json\<close> module (\<open>json.loads\<close>, and \<open>json.dumps\<close> with \<open>indent=2\<close>), SHA-256, the UTF-8
  codec, the platform's line separator, the clock (\<open>now_strftime env k fmt\<close> is the text of
  the \<open>k\<close>-th reading of \<open>datetime.now()\<close> during a call, under the format \<open>fmt\<close>), the
  interpreter's rendering of exceptions and of containers and floats, \<open>int()\<close> and
  \<open>str.strip()\<close> on non-ASCII text, \<open>str.format\<close> beyond plain keyword fields, the
  configured path, and the text-generation API. Theorems hold for every such environment.
\<close>

record pyenv =
  json_loads :: "string \<Rightarrow> py_error + json"
  json_dumps :: "json \<Rightarrow> string"
  sha256_hexdigest :: "string \<Rightarrow> string"
  utf8_valid :: "string \<Rightarrow> bool"
  os_linesep :: string
  now_strftime :: "nat \<Rightarrow> string \<Rightarrow> string"
  exc_str :: "py_error \<Rightarrow> string"
  repr_value :: "json \<Rightarrow> string"
  int_nonascii :: "string \<Rightarrow> py_error + int"
  strip_nonascii :: "string \<Rightarrow> string"
  format_with_spec :: "string \<Rightarrow> string \<Rightarrow> py_error + string"
  format_field_lib :: "(string \<times> string) list \<Rightarrow> string \<Rightarrow> py_error + string"
  ALLOWED_CONFIG_FILE :: string
  anthropic_client :: "py_error option"
  messages_create :: "string \<Rightarrow> py_error + string"

abbreviation LF :: char where "LF \<equiv> CHR 0x0A"
abbreviation CR :: char where "CR \<equiv> CHR 0x0D"

text \<open>\<open>int(s)\<close> and \<open>str(v)\<close>. The values that reach \<open>str\<close> and \<open>json.dumps\<close> as
  parts of a document or a payload were produced by \<open>json.loads\<close>, which builds its
  integers with \<open>int()\<close> and so has already raised on one beyond the digit limit; the
  rendering of such a value has no failing case.\<close>

definition py_int :: "pyenv \<Rightarrow> string \<Rightarrow> py_error + int" where
  "py_int env s = (if is_ascii s then int_ascii s else int_nonascii env s)"

fun py_str :: "pyenv \<Rightarrow> json \<Rightarrow> string" where
  "py_str env (JStr s) = s"
| "py_str env (JInt n) = decimal n"
| "py_str env (JBool b) = (if b then ''True'' else ''False'')"
| "py_str env JNull = ''None''"
| "py_str env v = repr_value env v"

text \<open>\<open>str(e)\<close> of a caught exception: the message it was raised with, where the model
  carries one.\<close>

fun str_exc :: "pyenv \<Rightarrow> py_error \<Rightarrow> string" where
  "str_exc env (FileNotFoundError m) = m"
| "str_exc env (JSONDecodeError m) = m"
| "str_exc env (LibraryError m) = m"
| "str_exc env e = exc_str env e"

text \<open>\<open>s.strip()\<close>: the ASCII characters Python's \<open>str\<close> counts as whitespace are
  \<open>0x09\<close> to \<open>0x0D\<close>, \<open>0x1C\<close> to \<open>0x1F\<close> and the space.\<close>

definition is_py_space :: "char \<Rightarrow> bool" where
  "is_py_space c =
     (c = CHR '' '' \<or> (9 \<le> (of_char c :: nat) \<and> (of_char c :: nat) \<le> 13)
      \<or> (28 \<le> (of_char c :: nat) \<and> (of_char c :: nat) \<le> 31))"

definition py_strip :: "pyenv \<Rightarrow> string \<Rightarrow> string" where
  "py_strip env s = (if is_ascii s then strip_with is_py_space s else strip_nonascii env s)"

text \<open>\<open>len(x)\<close>: a string counts code points, that is, the bytes that are not UTF-8
  continuation bytes.\<close>

definition is_continuation :: "char \<Rightarrow> bool" where
  "is_continuation c = (128 \<le> (of_char c :: nat) \<and> (of_char c :: nat) < 192)"

fun py_len :: "json \<Rightarrow> py_error + nat" where
  "py_len (JObj kvs) = Inr (length kvs)"
| "py_len (JArr xs) = Inr (length xs)"
| "py_len (JStr s) = Inr (length (filter (\<lambda>c. \<not> is_continuation c) s))"
| "py_len _ = Inl TypeError"

subsection \<open>Files\<close>

text \<open>
  The file system maps a path to the bytes of the regular file there; \<open>trace\<close> records
  every access in order. A file opened in text mode with the default \<open>newline=None\<close> is
  read with universal newlines (\<open>CR LF\<close> and a lone \<open>CR\<close> become \<open>LF\<close>) and written with
  every \<open>LF\<close> replaced by the platform's line separator. Opening an existing file is taken
  to succeed (no permission or device errors).
\<close>

datatype io_event = Stat string | ReadText string | ReadBytes string | WriteText string

record world =
  files :: "string \<Rightarrow> string option"
  trace :: "io_event list"

definition emit :: "io_event \<Rightarrow> world \<Rightarrow> world" where
  "emit ev w = w\<lparr>trace := trace w @ [ev]\<rparr>"

fun universal_newlines :: "string \<Rightarrow> string" where
  "universal_newlines [] = []"
| "universal_newlines [c] = [if c = CR then LF else c]"
| "universal_newlines (c # d # cs) =
     (if c = CR
      then LF # (if d = LF then universal_newlines cs else universal_newlines (d # cs))
      else c # universal_newlines (d # cs))"

definition decode_text :: "pyenv \<Rightarrow> string \<Rightarrow> py_error + string" where
  "decode_text env raw =
     (if utf8_valid env raw then Inr (universal_newlines raw) else Inl UnicodeDecodeError)"

definition encode_text :: "pyenv \<Rightarrow> string \<Rightarrow> string" where
  "encode_text env s = concat (map (\<lambda>c. if c = LF then os_linesep env else [c]) s)"

definition write_text :: "pyenv \<Rightarrow> string \<Rightarrow> string \<Rightarrow> world \<Rightarrow> world" where
  "write_text env path s w =
     emit (WriteText path) (w\<lparr>files := (files w)(path \<mapsto> encode_text env s)\<rparr>)"

section \<open>The Config Gateway (\<open>roi_config_mcp.py\<close>)\<close>

text \<open>\<open>_validate_file_access\<close>, \<open>_get_file_hash\<close>, \<open>_read_config\<close>, \<open>_write_config\<close>.\<close>

definition validate_file_access :: "pyenv \<Rightarrow> world \<Rightarrow> bool \<times> world" where
  "validate_file_access env w =
     (files w (ALLOWED_CONFIG_FILE env) \<noteq> None, emit (Stat (ALLOWED_CONFIG_FILE env)) w)"

definition get_file_hash :: "pyenv \<Rightarrow> world \<Rightarrow> string \<times> world" where
  "get_file_hash env w =
     (case validate_file_access env w of (ok, w1) \<Rightarrow>
        (case files w1 (ALLOWED_CONFIG_FILE env) of
           None \<Rightarrow> ([], w1)
         | Some raw \<Rightarrow>
             (take 12 (sha256_hexdigest env raw), emit (ReadBytes (ALLOWED_CONFIG_FILE env)) w1)))"

definition read_config :: "pyenv \<Rightarrow> world \<Rightarrow> (py_error + json) \<times> world" where
  "read_config env w =
     (case validate_file_access env w of (ok, w1) \<Rightarrow>
        (case files w1 (ALLOWED_CONFIG_FILE env) of
           None \<Rightarrow>
             (Inl (FileNotFoundError (''Config file not found: '' @ ALLOWED_CONFIG_FILE env)), w1)
         | Some raw \<Rightarrow>
             (bind_res (decode_text env raw) (json_loads env),
              emit (ReadText (ALLOWED_CONFIG_FILE env)) w1)))"

text \<open>The clock is read for the backup's name as the second reading of a call
  (\<open>roi_config_apply\<close> has read it once for \<open>lastUpdated\<close>).\<close>

definition write_config :: "pyenv \<Rightarrow> json \<Rightarrow> bool \<Rightarrow> world \<Rightarrow> (py_error + string) \<times> world" where
  "write_config env config backup w =
     (case validate_file_access env w of (ok, w1) \<Rightarrow>
        (case files w1 (ALLOWED_CONFIG_FILE env) of
           None \<Rightarrow>
             (Inl (FileNotFoundError (''Config file not found: '' @ ALLOWED_CONFIG_FILE env)), w1)
         | Some raw \<Rightarrow>
             if backup then
               (let backup_path =
                      ALLOWED_CONFIG_FILE env @ ''.backup-'' @ now_strftime env 1 ''%Y%m%d-%H%M%S'';
                    w2 = emit (ReadText (ALLOWED_CONFIG_FILE env)) w1
                in case decode_text env raw of
                     Inl e \<Rightarrow> (Inl e, w2)
                   | Inr backup_content \<Rightarrow>
                       (Inr (''Config saved. Backup: '' @ backup_path),
                        write_text env (ALLOWED_CONFIG_FILE env) (json_dumps env config)
                          (write_text env backup_path backup_content w2)))
             else
               (Inr ''Config saved. Backup: None'',
                write_text env (ALLOWED_CONFIG_FILE env) (json_dumps env config) w1)))"

datatype ResponseFormat = MARKDOWN | JSON

record ReadConfigInput =
  section_arg :: "string option"
  response_format :: ResponseFormat

record UpdatePreviewInput =
  categories :: "string option"

record ApplyUpdateInput =
  updates_json :: string
  user_confirmed :: bool
  create_backup :: bool

text \<open>A tool either returns its text or lets an exception escape to the caller.\<close>

datatype tool_result = Returned string | Raised py_error

definition error_result :: "pyenv \<Rightarrow> py_error \<Rightarrow> tool_result" where
  "error_result env e = Returned (''Error: '' @ str_exc env e)"

subsection \<open>\<open>roi_config_read\<close>\<close>

definition section_map :: "(string \<times> string) list" where
  "section_map =
     [(''gpuTypes'', ''gpuTypes''), (''hardware'', ''hardware''),
      (''models'', ''modelArchitectures''), (''storage'', ''storageOptions'')]"

text \<open>Lines 88 to 98: the data selected by \<open>params.section\<close>; \<open>Inr None\<close> is the early
  return for an unknown section.\<close>

definition read_data :: "json \<Rightarrow> string option \<Rightarrow> py_error + json option" where
  "read_data config sec =
     (case sec of
        None \<Rightarrow> Inr (Some config)
      | Some s \<Rightarrow>
          if s = [] then Inr (Some config)
          else if s = ''metadata'' then
            bind_res (dict_get config ''version'' JNull) (\<lambda>v.
            bind_res (dict_get config ''lastUpdated'' JNull) (\<lambda>l.
              Inr (Some (JObj [(''version'', v), (''lastUpdated'', l)]))))
          else (case map_of section_map s of
                  Some key \<Rightarrow> bind_res (dict_get config key (JObj [])) (\<lambda>d. Inr (Some d))
                | None \<Rightarrow> Inr None))"

text \<open>The string literals of lines 101 to 103 and 156 to 160 hold their line breaks as
  such in the file; they are read as the escape \<open>\n\<close>, the text the responses are built
  with.\<close>

definition roi_config_read :: "pyenv \<Rightarrow> ReadConfigInput \<Rightarrow> world \<Rightarrow> tool_result \<times> world" where
  "roi_config_read env params w =
     (case read_config env w of
        (Inl e, w1) \<Rightarrow> (error_result env e, w1)
      | (Inr config, w1) \<Rightarrow>
          (case get_file_hash env w1 of (file_hash, w2) \<Rightarrow>
             (case read_data config (section_arg params) of
                Inl e \<Rightarrow> (error_result env e, w2)
              | Inr None \<Rightarrow> (Returned ''Error: Unknown section'', w2)
              | Inr (Some data) \<Rightarrow>
                  if response_format params = JSON
                  then (Returned (json_dumps env
                          (JObj [(''file_hash'', JStr file_hash), (''data'', data)])), w2)
                  else (case dict_get config ''version'' JNull of
                          Inl e \<Rightarrow> (error_result env e, w2)
                        | Inr v \<Rightarrow>
                            (Returned (''# ROI Config'' @ [LF] @ ''Version: '' @ py_str env v
                               @ [LF] @ take 3000 (json_dumps env data)), w2)))))"

subsection \<open>\<open>roi_config_research\<close> and \<open>roi_config_status\<close>\<close>

definition research_text :: "string \<Rightarrow> string \<Rightarrow> string \<Rightarrow> string" where
  "research_text version date cats =
     ''# Research Request'' @ [LF] @
     ''Version: '' @ version @ [LF] @
     ''Date: '' @ date @ [LF] @
     ''Categories: '' @ cats @ [LF] @ [LF] @
     ''Research needed:'' @ [LF] @
     ''- GPU pricing (H100, H200, B200, B300)'' @ [LF] @
     ''- New AI models (Llama, Mistral, DeepSeek)  '' @ [LF] @
     ''- Storage pricing updates'' @ [LF] @
     ''- NVLink configurations'' @ [LF] @ [LF] @
     ''Return JSON with version_increment, gpuTypes_updates, modelArchitectures_updates, notes.''"

definition roi_config_research ::
  "pyenv \<Rightarrow> UpdatePreviewInput \<Rightarrow> world \<Rightarrow> tool_result \<times> world" where
  "roi_config_research env params w =
     (case read_config env w of
        (Inl e, w1) \<Rightarrow> (Raised e, w1)
      | (Inr config, w1) \<Rightarrow>
          (case dict_get config ''version'' JNull of
             Inl e \<Rightarrow> (Raised e, w1)
           | Inr v \<Rightarrow>
               (Returned (research_text (py_str env v) (now_strftime env 0 ''%Y-%m-%d'')
                  (case categories params of None \<Rightarrow> ''None'' | Some c \<Rightarrow> c)), w1)))"

definition status_text :: "string \<Rightarrow> bool \<Rightarrow> string \<Rightarrow> nat \<Rightarrow> nat \<Rightarrow> string" where
  "status_text file ex version gpus models =
     ''# ROI Config MCP Status'' @ [LF] @
     ''File: '' @ file @ [LF] @
     ''Exists: '' @ (if ex then ''True'' else ''False'') @ [LF] @
     ''Version: '' @ version @ [LF] @
     ''GPUs: '' @ str_nat gpus @ [LF] @
     ''Models: '' @ str_nat models @ [LF] @
     ''Security: Single file access only, requires confirmation for writes''"

definition roi_config_status :: "pyenv \<Rightarrow> world \<Rightarrow> tool_result \<times> world" where
  "roi_config_status env w =
     (case validate_file_access env w of (ex, w1) \<Rightarrow>
        if ex then
          (case read_config env w1 of
             (Inl e, w2) \<Rightarrow> (Raised e, w2)
           | (Inr config, w2) \<Rightarrow>
               (case bind_res (dict_get config ''version'' JNull) (\<lambda>v.
                     bind_res (bind_res (dict_get config ''gpuTypes'' (JObj [])) py_len) (\<lambda>gpus.
                     bind_res (bind_res (dict_get config ''modelArchitectures'' (JObj [])) py_len)
                       (\<lambda>models.
                         Inr (status_text (ALLOWED_CONFIG_FILE env) True (py_str env v)
                                gpus models)))) of
                  Inl e \<Rightarrow> (Raised e, w2)
                | Inr text \<Rightarrow> (Returned text, w2)))
        else (Returned (status_text (ALLOWED_CONFIG_FILE env) False ''N/A'' 0 0), w1))"

subsection \<open>\<open>roi_config_apply\<close>\<close>

text \<open>The f-string \<open>f"{major}.{minor}.{patch}"\<close> of line 142 (and of line 69 of the
  Batch Updater): the three fields are rendered from left to right.\<close>

definition version_string :: "int \<Rightarrow> int \<Rightarrow> int \<Rightarrow> py_error + string" where
  "version_string major minor patch =
     bind_res (str_int major) (\<lambda>a.
     bind_res (str_int minor) (\<lambda>b.
     bind_res (str_int patch) (\<lambda>c. Inr (a @ ''.'' @ b @ ''.'' @ c))))"

text \<open>Lines 135 to 142: the new version string from the old version and the value of
  \<open>updates["version_increment"]\<close>. The three parts are indexed and converted left to
  right, so the first failure is the one raised; parts after the third are ignored.\<close>

definition bump_parts :: "pyenv \<Rightarrow> string list \<Rightarrow> json \<Rightarrow> py_error + string" where
  "bump_parts env parts increment =
     bind_res (list_index parts 0) (\<lambda>p0. bind_res (py_int env p0) (\<lambda>major.
     bind_res (list_index parts 1) (\<lambda>p1. bind_res (py_int env p1) (\<lambda>minor.
     bind_res (list_index parts 2) (\<lambda>p2. bind_res (py_int env p2) (\<lambda>patch.
       if increment = JStr ''minor''
       then version_string major (minor + 1) 0
       else version_string major minor (patch + 1)))))))"

definition gateway_bump :: "pyenv \<Rightarrow> json \<Rightarrow> json \<Rightarrow> py_error + string" where
  "gateway_bump env old_version increment =
     (case old_version of
        JStr s \<Rightarrow> bump_parts env (split_str ''.'' s) increment
      | _ \<Rightarrow> Inl AttributeError)"

text \<open>The statement \<open>config[cat][name][k] = v\<close>: two lookups and an assignment into the
  dictionary found, which stays where it is inside \<open>config\<close>.\<close>

definition assign_property ::
  "json \<Rightarrow> string \<Rightarrow> string \<Rightarrow> string \<Rightarrow> json \<Rightarrow> py_error + json" where
  "assign_property config cat name k v =
     bind_res (getitem config cat) (\<lambda>category.
     bind_res (getitem category name) (\<lambda>entry.
     bind_res (setitem entry k v) (\<lambda>entry'.
     bind_res (setitem category name entry') (\<lambda>category'.
       setitem config cat category'))))"

text \<open>The inner loop \<open>for k, v in data.items()\<close> (lines 147 to 149 and 152 to 154); the
  change entries are labelled \<open>gpuTypes\<close> or \<open>models\<close>.\<close>

fun update_properties ::
  "pyenv \<Rightarrow> string \<Rightarrow> string \<Rightarrow> string \<Rightarrow> (string \<times> json) list \<Rightarrow> json \<times> string list
     \<Rightarrow> py_error + (json \<times> string list)" where
  "update_properties env cat label name [] st = Inr st"
| "update_properties env cat label name ((k, v) # rest) (config, changes) =
     bind_res (assign_property config cat name k v) (\<lambda>config'.
       update_properties env cat label name rest
         (config', changes @ [label @ ''.'' @ name @ ''.'' @ k @ '': '' @ py_str env v]))"

text \<open>The outer loop \<open>for name, data in updates.get(..., {}).items()\<close> with its test
  \<open>if name in config.get(cat, {})\<close> (lines 145 to 154).\<close>

fun update_category ::
  "pyenv \<Rightarrow> string \<Rightarrow> string \<Rightarrow> (string \<times> json) list \<Rightarrow> json \<times> string list
     \<Rightarrow> py_error + (json \<times> string list)" where
  "update_category env cat label [] st = Inr st"
| "update_category env cat label ((name, data) # rest) (config, changes) =
     bind_res (dict_get config cat (JObj [])) (\<lambda>category.
     bind_res (py_in name category) (\<lambda>present.
       if present
       then bind_res (dict_items data) (\<lambda>props.
            bind_res (update_properties env cat label name props (config, changes))
              (update_category env cat label rest))
       else update_category env cat label rest (config, changes)))"

text \<open>Lines 132 to 143: the version step, with the change entry it records.\<close>

definition version_step ::
  "pyenv \<Rightarrow> json \<Rightarrow> json \<Rightarrow> py_error + (json \<times> string list)" where
  "version_step env updates config =
     bind_res (dict_get config ''version'' (JStr ''1.0.0'')) (\<lambda>old_version.
     bind_res (dict_get updates ''version_increment'' JNull) (\<lambda>increment.
       if py_truthy increment
       then bind_res (gateway_bump env old_version increment) (\<lambda>new_version.
            bind_res (setitem config ''version'' (JStr new_version)) (\<lambda>config'.
              Inr (config',
                   [''Version: '' @ py_str env old_version @ '' -> '' @ new_version])))
       else Inr (config, [])))"

text \<open>Lines 132 to 154: from the parsed payload and the loaded document to the document
  to write and the list of change entries. The clock's first reading is taken at line 144.\<close>

definition merge_updates ::
  "pyenv \<Rightarrow> json \<Rightarrow> json \<Rightarrow> py_error + (json \<times> string list)" where
  "merge_updates env updates config =
     bind_res (version_step env updates config) (\<lambda>(config1, changes1).
     bind_res (setitem config1 ''lastUpdated''
                 (JStr (now_strftime env 0 ''%Y-%m-%dT%H:%M:%SZ''))) (\<lambda>config2.
     bind_res (bind_res (dict_get updates ''gpuTypes_updates'' (JObj [])) dict_items)
       (\<lambda>gpu_items.
     bind_res (update_category env ''gpuTypes'' ''gpuTypes'' gpu_items (config2, changes1))
       (\<lambda>st3.
     bind_res (bind_res (dict_get updates ''modelArchitectures_updates'' (JObj [])) dict_items)
       (\<lambda>model_items.
       update_category env ''modelArchitectures'' ''models'' model_items st3)))))"

text \<open>\<open>"\n".join(...)\<close>.\<close>

fun join_lines :: "string list \<Rightarrow> string" where
  "join_lines [] = []"
| "join_lines [l] = l"
| "join_lines (l # m # ls) = l @ [LF] @ join_lines (m # ls)"

definition applied_text :: "string list \<Rightarrow> string \<Rightarrow> string" where
  "applied_text changes result =
     ''# Update Applied'' @ [LF] @
     ''Changes: '' @ str_nat (length changes) @ [LF] @
     result @ [LF] @
     join_lines (map (\<lambda>c. ''- '' @ c) (take 20 changes))"

definition roi_config_apply ::
  "pyenv \<Rightarrow> ApplyUpdateInput \<Rightarrow> world \<Rightarrow> tool_result \<times> world" where
  "roi_config_apply env params w =
     (if \<not> user_confirmed params
      then (Returned ''ERROR: Set user_confirmed=True to proceed'', w)
      else
        (case json_loads env (updates_json params) of
           Inl e \<Rightarrow> (error_result env e, w)
         | Inr updates \<Rightarrow>
             (case read_config env w of
                (Inl e, w1) \<Rightarrow> (error_result env e, w1)
              | (Inr config, w1) \<Rightarrow>
                  (case merge_updates env updates config of
                     Inl e \<Rightarrow> (error_result env e, w1)
                   | Inr (config', changes) \<Rightarrow>
                       (case write_config env config' (create_backup params) w1 of
                          (Inl e, w2) \<Rightarrow> (error_result env e, w2)
                        | (Inr result, w2) \<Rightarrow>
                            (Returned (applied_text changes result), w2))))))"

section \<open>The Batch Updater (\<open>weekly_update.py\<close>)\<close>

definition CONFIG_FILE :: string where
  "CONFIG_FILE = ''roi-config Rev 08.json''"

definition UPDATE_PROMPT :: string where
  "UPDATE_PROMPT =
     ''You are updating an F5 DPU ROI Calculator configuration file.'' @ [LF] @
     [LF] @
     ''Current date: {date}'' @ [LF] @
     ''Current config version: {version}'' @ [LF] @
     [LF] @
     ''TASK: Research and provide updated values for GPU pricing and new models in JSON format.''
       @ [LF] @
     [LF] @
     ''Return ONLY a JSON object with:'' @ [LF] @
     ''{'' @ [LF] @
     ''  \"version_increment\": \"patch|minor\",'' @ [LF] @
     ''  \"gpu_updates\": {},'' @ [LF] @
     ''  \"new_gpus\": {},'' @ [LF] @
     ''  \"new_models\": {},'' @ [LF] @
     ''  \"notes\": \"Summary of changes\"'' @ [LF] @
     ''}'' @ [LF]"

subsection \<open>\<open>str.format\<close> with keyword arguments\<close>

text \<open>
  A replacement field runs from a \<open>{\<close> to the matching \<open>}\<close>, braces inside it counted;
  \<open>{{\<close> and \<open>}}\<close> are literal braces; a lone \<open>}\<close> and an unclosed field are a
  \<open>ValueError\<close>. The field's name ends at the first \<open>:\<close> or \<open>!\<close>. A plain keyword name
  is looked up first, and a missing one is a \<open>KeyError\<close> before anything after the name
  is read; positional fields, attribute and index access, conversions and format
  specifications are the library's.
\<close>

definition name_end :: "char \<Rightarrow> bool" where
  "name_end c = (c = CHR '':'' \<or> c = CHR ''!'')"

definition plain_name :: "string \<Rightarrow> bool" where
  "plain_name n =
     (n \<noteq> [] \<and> \<not> list_all is_digit n
      \<and> list_all (\<lambda>c. c \<noteq> CHR ''.'' \<and> c \<noteq> CHR ''['' \<and> c \<noteq> CHR ''{'') n)"

definition format_field :: "pyenv \<Rightarrow> (string \<times> string) list \<Rightarrow> string \<Rightarrow> py_error + string" where
  "format_field env kwargs field =
     (let name = takeWhile (\<lambda>c. \<not> name_end c) field;
          rest = dropWhile (\<lambda>c. \<not> name_end c) field
      in if plain_name name
         then (case map_of kwargs name of
                 None \<Rightarrow> Inl (KeyError name)
               | Some v \<Rightarrow> if rest = [] then Inr v else format_with_spec env v rest)
         else format_field_lib env kwargs field)"

datatype format_state = Literal | Field nat string

fun format_scan ::
  "pyenv \<Rightarrow> (string \<times> string) list \<Rightarrow> format_state \<Rightarrow> string \<Rightarrow> py_error + string" where
  "format_scan env kwargs Literal [] = Inr []"
| "format_scan env kwargs (Field depth acc) [] = Inl ValueError"
| "format_scan env kwargs Literal (c # cs) =
     (if c = CHR ''{'' then
        (case cs of
           [] \<Rightarrow> Inl ValueError
         | d # ds \<Rightarrow>
             if d = CHR ''{''
             then bind_res (format_scan env kwargs Literal ds) (\<lambda>t. Inr (c # t))
             else format_scan env kwargs (Field 0 []) cs)
      else if c = CHR ''}'' then
        (case cs of
           [] \<Rightarrow> Inl ValueError
         | d # ds \<Rightarrow>
             if d = CHR ''}''
             then bind_res (format_scan env kwargs Literal ds) (\<lambda>t. Inr (c # t))
             else Inl ValueError)
      else bind_res (format_scan env kwargs Literal cs) (\<lambda>t. Inr (c # t)))"
| "format_scan env kwargs (Field depth acc) (c # cs) =
     (if c = CHR ''{'' then format_scan env kwargs (Field (Suc depth) (acc @ [c])) cs
      else if c = CHR ''}'' then
        (if depth = 0
         then bind_res (format_field env kwargs acc) (\<lambda>s.
              bind_res (format_scan env kwargs Literal cs) (\<lambda>t. Inr (s @ t)))
         else format_scan env kwargs (Field (depth - 1) (acc @ [c])) cs)
      else format_scan env kwargs (Field depth (acc @ [c])) cs)"

definition py_format :: "pyenv \<Rightarrow> string \<Rightarrow> (string \<times> string) list \<Rightarrow> py_error + string" where
  "py_format env template kwargs = format_scan env kwargs Literal template"

subsection \<open>\<open>get_claude_updates\<close>\<close>

text \<open>Lines 48 to 57: from the response text to the parsed proposal, or \<open>None\<close> with one
  printed line when the text is not JSON. Only \<open>JSONDecodeError\<close> is caught.\<close>

definition fence_json :: string where
  "fence_json = ''```json''"

definition fence :: string where
  "fence = ''```''"

text \<open>Lines 50 to 53 on their own: the text handed to \<open>json.loads\<close> before \<open>strip()\<close>.\<close>

definition fenced_body :: "string \<Rightarrow> py_error + string" where
  "fenced_body response_text =
     (if str_contains fence_json response_text
      then bind_res (list_index (split_str fence_json response_text) 1) (\<lambda>after.
             list_index (split_str fence after) 0)
      else Inr response_text)"

definition parse_response :: "pyenv \<Rightarrow> string \<Rightarrow> py_error + (json \<times> string list)" where
  "parse_response env response_text =
     bind_res (fenced_body response_text) (\<lambda>json_str.
       case json_loads env (py_strip env json_str) of
         Inr updates \<Rightarrow> Inr (updates, [])
       | Inl (JSONDecodeError m) \<Rightarrow> Inr (JNull, [''Failed to parse response: '' @ m])
       | Inl e \<Rightarrow> Inl e)"

text \<open>The whole function: the client is built, the prompt is formatted (the clock's second
  reading of the run), the API is called, the response is parsed.\<close>

definition get_claude_updates :: "pyenv \<Rightarrow> json \<Rightarrow> py_error + (json \<times> string list)" where
  "get_claude_updates env current_config =
     (case anthropic_client env of
        Some e \<Rightarrow> Inl e
      | None \<Rightarrow>
          bind_res (dict_get current_config ''version'' (JStr ''unknown'')) (\<lambda>version.
          bind_res (py_format env UPDATE_PROMPT
                      [(''date'', now_strftime env 1 ''%Y-%m-%d''),
                       (''version'', py_str env version)]) (\<lambda>prompt.
          bind_res (messages_create env prompt) (parse_response env))))"

subsection \<open>\<open>increment_version\<close> and \<open>apply_updates\<close>\<close>

definition increment_version :: "pyenv \<Rightarrow> json \<Rightarrow> json \<Rightarrow> py_error + json" where
  "increment_version env version increment_type =
     (case version of
        JStr s \<Rightarrow>
          (let parts = split_str ''.'' s
           in if length parts = 3
              then bind_res (py_int env (parts ! 0)) (\<lambda>major.
                   bind_res (py_int env (parts ! 1)) (\<lambda>minor.
                   bind_res (py_int env (parts ! 2)) (\<lambda>patch.
                     bind_res
                       (if increment_type = JStr ''minor''
                        then version_string major (minor + 1) 0
                        else version_string major minor (patch + 1))
                       (\<lambda>v. Inr (JStr v)))))
              else Inr version)
      | _ \<Rightarrow> Inl AttributeError)"

text \<open>\<open>apply_updates\<close> returns the document, the flag \<open>changes_made\<close> and what it printed;
  its clock reading is the third of the run.\<close>

definition apply_updates ::
  "pyenv \<Rightarrow> json \<Rightarrow> json \<Rightarrow> py_error + ((json \<times> bool) \<times> string list)" where
  "apply_updates env config updates =
     (if \<not> py_truthy updates then Inr ((config, False), [''No updates to apply''])
      else
        bind_res (dict_get updates ''version_increment'' JNull) (\<lambda>increment.
        bind_res
          (if py_truthy increment
           then bind_res (dict_get config ''version'' (JStr ''1.0.0'')) (\<lambda>old_version.
                bind_res (increment_version env old_version increment) (\<lambda>new_version.
                bind_res (setitem config ''version'' new_version) (\<lambda>config'.
                  Inr (config', True,
                       [''Version: '' @ py_str env old_version @ '' -> ''
                          @ py_str env new_version]))))
           else Inr (config, False, []))
          (\<lambda>(config1, changes_made, printed).
             bind_res (setitem config1 ''lastUpdated''
                         (JStr (now_strftime env 2 ''%Y-%m-%dT%H:%M:%SZ''))) (\<lambda>config2.
               Inr ((config2, changes_made), printed)))))"

subsection \<open>\<open>main\<close>\<close>

text \<open>A run ends with the value \<open>main\<close> returns, which becomes the exit status, or with
  an exception nobody catches, which the interpreter turns into status 1. The third
  component of a result is what the run printed, one entry per \<open>print\<close>. The locale's
  encoding is taken to be UTF-8.\<close>

datatype outcome = Exit nat | Uncaught py_error

fun exit_status :: "outcome \<Rightarrow> nat" where
  "exit_status (Exit n) = n"
| "exit_status (Uncaught e) = 1"

text \<open>Lines 104 to 118: what \<open>main\<close> does with the value of \<open>get_claude_updates\<close>.\<close>

definition main_finish ::
  "pyenv \<Rightarrow> json \<Rightarrow> json \<Rightarrow> world \<Rightarrow> string list \<Rightarrow> outcome \<times> world \<times> string list" where
  "main_finish env config updates w out =
     (if py_truthy updates then
        (case dict_get updates ''notes'' (JStr ''No notes'') of
           Inl e \<Rightarrow> (Uncaught e, w, out)
         | Inr notes \<Rightarrow>
             (let out1 = out @ [''Update notes: '' @ py_str env notes]
              in case apply_updates env config updates of
                   Inl e \<Rightarrow> (Uncaught e, w, out1)
                 | Inr ((config', changes_made), printed) \<Rightarrow>
                     if changes_made
                     then (Exit 0, write_text env CONFIG_FILE (json_dumps env config') w,
                           out1 @ printed @ [''Saved updates to '' @ CONFIG_FILE])
                     else (Exit 0, w, out1 @ printed @ [''No changes were needed''])))
      else (Exit 1, w, out @ [''Failed to get updates from Claude API'']))"

text \<open>The run from the moment the API has answered with \<open>response_text\<close>: lines 48 to 57
  of \<open>get_claude_updates\<close>, then lines 104 to 118 of \<open>main\<close>.\<close>

definition main_from_response ::
  "pyenv \<Rightarrow> json \<Rightarrow> string \<Rightarrow> world \<Rightarrow> string list \<Rightarrow> outcome \<times> world \<times> string list" where
  "main_from_response env config response_text w out =
     (case parse_response env response_text of
        Inl e \<Rightarrow> (Uncaught e, w, out)
      | Inr (updates, printed) \<Rightarrow> main_finish env config updates w (out @ printed))"

definition main :: "pyenv \<Rightarrow> world \<Rightarrow> outcome \<times> world \<times> string list" where
  "main env w =
     (let out0 = [''=== Weekly ROI Calculator Update ==='',
                  ''Date: '' @ now_strftime env 0 ''%Y-%m-%d %H:%M:%S''];
          w1 = emit (Stat CONFIG_FILE) w
      in case files w CONFIG_FILE of
           None \<Rightarrow> (Exit 1, w1, out0 @ [''Error: Config file not found: '' @ CONFIG_FILE])
         | Some raw \<Rightarrow>
             (let w2 = emit (ReadText CONFIG_FILE) w1
              in case bind_res (decode_text env raw) (json_loads env) of
                   Inl e \<Rightarrow> (Uncaught e, w2, out0)
                 | Inr config \<Rightarrow>
                     (case dict_get config ''version'' (JStr ''unknown'') of
                        Inl e \<Rightarrow> (Uncaught e, w2, out0)
                      | Inr version \<Rightarrow>
                          (let out1 = out0 @ [''Current version: '' @ py_str env version,
                                              ''Fetching updates from Claude API...'']
                           in case get_claude_updates env config of
                                Inl e \<Rightarrow> (Uncaught e, w2, out1)
                              | Inr (updates, printed) \<Rightarrow>
                                  main_finish env config updates w2 (out1 @ printed)))))"

section \<open>Vocabulary of the properties\<close>

text \<open>The value under a top-level key of a document, if it is a dictionary that has the
  key.\<close>

definition top_get :: "json \<Rightarrow> string \<Rightarrow> json option" where
  "top_get config k = (case config of JObj kvs \<Rightarrow> map_of kvs k | _ \<Rightarrow> None)"

text \<open>\<open>key_absent config cat name\<close>: the document is a dictionary whose category \<open>cat\<close> is
  missing or is a dictionary without the key \<open>name\<close>.\<close>

fun key_absent :: "json \<Rightarrow> string \<Rightarrow> string \<Rightarrow> bool" where
  "key_absent (JObj kvs) cat name =
     (case map_of kvs cat of
        None \<Rightarrow> True
      | Some (JObj g) \<Rightarrow> map_of g name = None
      | Some _ \<Rightarrow> False)"
| "key_absent _ cat name = False"

text \<open>A non-negative integer as it is written in a version: one or more ASCII digits.\<close>

definition digits :: "string \<Rightarrow> bool" where
  "digits s = (s \<noteq> [] \<and> list_all is_digit s)"

text \<open>A part of a version that \<open>int()\<close> accepts: digits, no more of them than the
  interpreter's limit. A number \<open>fits\<close> when \<open>str()\<close> renders it: its numeral is within the
  limit.\<close>

definition version_part :: "string \<Rightarrow> bool" where
  "version_part s = (digits s \<and> length s \<le> int_max_str_digits)"

definition fits :: "nat \<Rightarrow> bool" where
  "fits n = (length (str_nat n) \<le> int_max_str_digits)"

subsection \<open>Environments and worlds for worked examples\<close>

text \<open>
  In a worked example \<open>json.loads\<close> and \<open>json.dumps\<close> are given by their values on the
  texts and documents of that example, the platform is POSIX (\<open>os.linesep\<close> is a line
  feed), the files are ASCII, and the clock shows noon on 1 June 2024.
\<close>

definition example_now :: "nat \<Rightarrow> string \<Rightarrow> string" where
  "example_now k fmt =
     (if fmt = ''%Y-%m-%dT%H:%M:%SZ'' then ''2024-06-01T12:00:00Z''
      else if fmt = ''%Y%m%d-%H%M%S'' then ''20240601-120000''
      else if fmt = ''%Y-%m-%d'' then ''2024-06-01''
      else ''2024-06-01 12:00:00'')"

definition example_path :: string where
  "example_path = ''/data/roi-config Rev 08.json''"

definition example_env :: "(string \<times> json) list \<Rightarrow> (json \<times> string) list \<Rightarrow> pyenv" where
  "example_env loads_table dumps_table =
     \<lparr> json_loads = (\<lambda>s. case map_of loads_table s of
                             Some v \<Rightarrow> Inr v
                           | None \<Rightarrow> Inl (JSONDecodeError ''Expecting value'')),
       json_dumps = (\<lambda>j. case map_of dumps_table j of Some s \<Rightarrow> s | None \<Rightarrow> []),
       sha256_hexdigest = (\<lambda>s. replicate 64 (CHR ''0'')),
       utf8_valid = is_ascii,
       os_linesep = [LF],
       now_strftime = example_now,
       exc_str = (\<lambda>e. ''exception''),
       repr_value = (\<lambda>v. ''value''),
       int_nonascii = (\<lambda>s. Inl ValueError),
       strip_nonascii = (\<lambda>s. s),
       format_with_spec = (\<lambda>v spec. Inl ValueError),
       format_field_lib = (\<lambda>kwargs field. Inl ValueError),
       ALLOWED_CONFIG_FILE = example_path,
       anthropic_client = None,
       messages_create = (\<lambda>prompt. Inl (LibraryError ''no answer'')) \<rparr>"

definition world_with :: "string \<Rightarrow> string \<Rightarrow> world" where
  "world_with path raw = \<lparr> files = Map.empty(path \<mapsto> raw), trace = [] \<rparr>"

definition empty_world :: world where
  "empty_world = \<lparr> files = Map.empty, trace = [] \<rparr>"

text \<open>A document with all four categories' worth of shape, as one line of JSON and as the
  value \<open>json.loads\<close> gives for it; a payload that bumps the minor version, reprices a GPU
  the document has and one it does not have; the document that results, as a value and as
  \<open>json.dumps\<close> prints it.\<close>

definition sample_doc_text :: string where
  "sample_doc_text =
     ''{\"version\": \"1.4.9\", \"hardware\": {\"dpu\": 1}, '' @
     ''\"storageOptions\": {\"nvme\": 2}, \"gpuTypes\": {\"H100\": {\"price\": 30000}}}''"

definition sample_items :: "(string \<times> json) list" where
  "sample_items =
     [(''version'', JStr ''1.4.9''),
      (''hardware'', JObj [(''dpu'', JInt 1)]),
      (''storageOptions'', JObj [(''nvme'', JInt 2)]),
      (''gpuTypes'', JObj [(''H100'', JObj [(''price'', JInt 30000)])])]"

definition sample_doc :: json where
  "sample_doc = JObj sample_items"

definition sample_payload_text :: string where
  "sample_payload_text =
     ''{\"version_increment\": \"minor\", '' @
     ''\"gpuTypes_updates\": {\"H100\": {\"price\": 25000}, \"B300\": {\"price\": 1}}}''"

definition sample_payload :: json where
  "sample_payload =
     JObj [(''version_increment'', JStr ''minor''),
           (''gpuTypes_updates'',
            JObj [(''H100'', JObj [(''price'', JInt 25000)]),
                  (''B300'', JObj [(''price'', JInt 1)])])]"

definition sample_result :: json where
  "sample_result =
     JObj [(''version'', JStr ''1.5.0''),
           (''hardware'', JObj [(''dpu'', JInt 1)]),
           (''storageOptions'', JObj [(''nvme'', JInt 2)]),
           (''gpuTypes'', JObj [(''H100'', JObj [(''price'', JInt 25000)])]),
           (''lastUpdated'', JStr ''2024-06-01T12:00:00Z'')]"

definition sample_result_text :: string where
  "sample_result_text =
     join_lines
       [''{'',
        ''  \"version\": \"1.5.0\",'',
        ''  \"hardware\": {'',
        ''    \"dpu\": 1'',
        ''  },'',
        ''  \"storageOptions\": {'',
        ''    \"nvme\": 2'',
        ''  },'',
        ''  \"gpuTypes\": {'',
        ''    \"H100\": {'',
        ''      \"price\": 25000'',
        ''    }'',
        ''  },'',
        ''  \"lastUpdated\": \"2024-06-01T12:00:00Z\"'',
        ''}'']"

text \<open>The payload of the worked example without the entry for the GPU the document lacks.\<close>

definition sample_payload_known_text :: string where
  "sample_payload_known_text =
     ''{\"version_increment\": \"minor\", \"gpuTypes_updates\": {\"H100\": {\"price\": 25000}}}''"

definition sample_payload_known :: json where
  "sample_payload_known =
     JObj [(''version_increment'', JStr ''minor''),
           (''gpuTypes_updates'', JObj [(''H100'', JObj [(''price'', JInt 25000)])])]"

definition sample_env :: pyenv where
  "sample_env =
     example_env
       [(sample_doc_text, sample_doc), (sample_payload_text, sample_payload),
        (sample_payload_known_text, sample_payload_known)]
       [(sample_result, sample_result_text)]"

definition sample_params_known :: ApplyUpdateInput where
  "sample_params_known =
     \<lparr> updates_json = sample_payload_known_text, user_confirmed = True,
       create_backup = False \<rparr>"

definition sample_params :: ApplyUpdateInput where
  "sample_params =
     \<lparr> updates_json = sample_payload_text, user_confirmed = True, create_backup = False \<rparr>"

definition sample_world1 :: world where
  "sample_world1 = \<lparr> files = Map.empty(example_path \<mapsto> sample_doc_text),
     trace = [Stat example_path, ReadText example_path] \<rparr>"

text \<open>An answer of the API with a fenced block that is not JSON.\<close>

definition fenced_reply :: string where
  "fenced_reply = join_lines [''Here is the update:'', ''```json'', ''{oops'', ''```'']"

text \<open>An answer of the API for the Batch Updater: a fenced object that asks for a patch
  bump.\<close>

definition bump_reply :: string where
  "bump_reply =
     join_lines [''Here is the update:'', ''```json'',
                 ''{\"version_increment\": \"patch\", \"notes\": \"H100 price cut\"}'',
                 ''```'', ''Done.'']"

text \<open>The document of the specification's example for the read operation, with the
  serialisations \<open>json.dumps\<close> gives for its metadata and for the envelope around them;
  and a document whose major version number has 3000 digits.\<close>

definition spec_doc_text :: string where
  "spec_doc_text =
     ''{\"version\":\"2.1.0\",\"lastUpdated\":\"2024-01-01T00:00:00Z\",\"gpuTypes\":{}}''"

definition spec_doc_items :: "(string \<times> json) list" where
  "spec_doc_items =
     [(''version'', JStr ''2.1.0''), (''lastUpdated'', JStr ''2024-01-01T00:00:00Z''),
      (''gpuTypes'', JObj [])]"

definition spec_data :: json where
  "spec_data =
     JObj [(''version'', JStr ''2.1.0''), (''lastUpdated'', JStr ''2024-01-01T00:00:00Z'')]"

definition spec_data_text :: string where
  "spec_data_text =
     join_lines [''{'',
                 ''  \"version\": \"2.1.0\",'',
                 ''  \"lastUpdated\": \"2024-01-01T00:00:00Z\"'',
                 ''}'']"

definition spec_envelope_text :: string where
  "spec_envelope_text =
     join_lines [''{'',
                 ''  \"file_hash\": \"000000000000\",'',
                 ''  \"data\": {'',
                 ''    \"version\": \"2.1.0\",'',
                 ''    \"lastUpdated\": \"2024-01-01T00:00:00Z\"'',
                 ''  }'',
                 ''}'']"

definition spec_env :: pyenv where
  "spec_env =
     example_env [(spec_doc_text, JObj spec_doc_items)]
       [(spec_data, spec_data_text),
        (JObj [(''file_hash'', JStr ''000000000000''), (''data'', spec_data)],
         spec_envelope_text)]"

definition long_version :: string where
  "long_version = replicate 3000 (CHR ''9'') @ ''.0.0''"

definition long_doc_text :: string where
  "long_doc_text =
     ''{\"version\": \"'' @ long_version @
     ''\", \"lastUpdated\": \"2024-01-01T00:00:00Z\", \"gpuTypes\": {}}''"

definition long_doc :: json where
  "long_doc =
     JObj [(''version'', JStr long_version),
           (''lastUpdated'', JStr ''2024-01-01T00:00:00Z''),
           (''gpuTypes'', JObj [])]"

definition long_data :: json where
  "long_data =
     JObj [(''version'', JStr long_version), (''lastUpdated'', JStr ''2024-01-01T00:00:00Z'')]"

definition long_data_text :: string where
  "long_data_text =
     join_lines [''{'',
                 ''  \"version\": \"'' @ long_version @ ''\",'',
                 ''  \"lastUpdated\": \"2024-01-01T00:00:00Z\"'',
                 ''}'']"

definition long_env :: pyenv where
  "long_env = example_env [(long_doc_text, long_doc)] [(long_data, long_data_text)]"

definition metadata_markdown :: ReadConfigInput where
  "metadata_markdown = \<lparr> section_arg = Some ''metadata'', response_format = MARKDOWN \<rparr>"

definition metadata_json :: ReadConfigInput where
  "metadata_json = \<lparr> section_arg = Some ''metadata'', response_format = JSON \<rparr>"

text \<open>A document with a version only, a payload whose \<open>version_increment\<close> is the empty
  string, and the document the apply operation writes for them.\<close>

definition plain_doc_text :: string where
  "plain_doc_text = ''{\"version\": \"1.4.9\"}''"

definition empty_kind_text :: string where
  "empty_kind_text = ''{\"version_increment\": \"\"}''"

definition stamped_doc_text :: string where
  "stamped_doc_text =
     join_lines [''{'',
                 ''  \"version\": \"1.4.9\",'',
                 ''  \"lastUpdated\": \"2024-06-01T12:00:00Z\"'',
                 ''}'']"

definition empty_kind_env :: pyenv where
  "empty_kind_env =
     example_env
       [(plain_doc_text, JObj [(''version'', JStr ''1.4.9'')]),
        (empty_kind_text, JObj [(''version_increment'', JStr '''')])]
       [(JObj [(''version'', JStr ''1.4.9''), (''lastUpdated'', JStr ''2024-06-01T12:00:00Z'')],
         stamped_doc_text)]"

text \<open>A document with every field of the data model, pretty-printed, as a file saved with
  Windows line endings (\<open>CR LF\<close> after every line) and as the text Python reads from
  it; the document the empty payload makes of it, and its serialisation.\<close>

definition full_doc_lines :: "string list" where
  "full_doc_lines =
       [''{'',
        ''  \"version\": \"1.4.9\",'',
        ''  \"lastUpdated\": \"2024-01-01T00:00:00Z\",'',
        ''  \"gpuTypes\": {'',
        ''    \"H100\": {'',
        ''      \"price\": 30000'',
        ''    }'',
        ''  },'',
        ''  \"modelArchitectures\": {'',
        ''    \"llama\": {'',
        ''      \"params\": 70'',
        ''    }'',
        ''  },'',
        ''  \"storageOptions\": {'',
        ''    \"nvme\": {'',
        ''      \"price\": 2'',
        ''    }'',
        ''  },'',
        ''  \"hardware\": {'',
        ''    \"dpu\": {'',
        ''      \"count\": 1'',
        ''    }'',
        ''  }'',
        ''}'']"

definition full_doc_crlf :: string where
  "full_doc_crlf = concat (map (\<lambda>l. l @ [CR, LF]) full_doc_lines)"

definition full_doc_lf :: string where
  "full_doc_lf = concat (map (\<lambda>l. l @ [LF]) full_doc_lines)"

definition full_doc_items :: "(string \<times> json) list" where
  "full_doc_items =
     [(''version'', JStr ''1.4.9''),
      (''lastUpdated'', JStr ''2024-01-01T00:00:00Z''),
      (''gpuTypes'', JObj [(''H100'', JObj [(''price'', JInt 30000)])]),
      (''modelArchitectures'', JObj [(''llama'', JObj [(''params'', JInt 70)])]),
      (''storageOptions'', JObj [(''nvme'', JObj [(''price'', JInt 2)])]),
      (''hardware'', JObj [(''dpu'', JObj [(''count'', JInt 1)])])]"

definition full_doc_stamped :: json where
  "full_doc_stamped =
     JObj [(''version'', JStr ''1.4.9''),
           (''lastUpdated'', JStr ''2024-06-01T12:00:00Z''),
           (''gpuTypes'', JObj [(''H100'', JObj [(''price'', JInt 30000)])]),
           (''modelArchitectures'', JObj [(''llama'', JObj [(''params'', JInt 70)])]),
           (''storageOptions'', JObj [(''nvme'', JObj [(''price'', JInt 2)])]),
           (''hardware'', JObj [(''dpu'', JObj [(''count'', JInt 1)])])]"

definition full_doc_stamped_lines :: "string list" where
  "full_doc_stamped_lines =
       [''{'',
        ''  \"version\": \"1.4.9\",'',
        ''  \"lastUpdated\": \"2024-06-01T12:00:00Z\",'',
        ''  \"gpuTypes\": {'',
        ''    \"H100\": {'',
        ''      \"price\": 30000'',
        ''    }'',
        ''  },'',
        ''  \"modelArchitectures\": {'',
        ''    \"llama\": {'',
        ''      \"params\": 70'',
        ''    }'',
        ''  },'',
        ''  \"storageOptions\": {'',
        ''    \"nvme\": {'',
        ''      \"price\": 2'',
        ''    }'',
        ''  },'',
        ''  \"hardware\": {'',
        ''    \"dpu\": {'',
        ''      \"count\": 1'',
        ''    }'',
        ''  }'',
        ''}'']"

definition full_doc_stamped_text :: string where
  "full_doc_stamped_text = join_lines full_doc_stamped_lines"

definition full_doc_env :: pyenv where
  "full_doc_env =
     example_env [(''{}'', JObj []), (full_doc_lf, JObj full_doc_items)]
       [(full_doc_stamped, full_doc_stamped_text)]"

definition example_backup_path :: string where
  "example_backup_path = ''/data/roi-config Rev 08.json.backup-20240601-120000''"

text \<open>The empty payload, confirmed, with a backup requested.\<close>

definition empty_payload_backup :: ApplyUpdateInput where
  "empty_payload_backup =
     \<lparr> updates_json = ''{}'', user_confirmed = True, create_backup = True \<rparr>"

text \<open>A document whose patch part has 4301 digits, one more than \<open>int()\<close> converts, the
  payload that asks for a patch increment, and the message of the \<open>ValueError\<close> that
  CPython raises for that part.\<close>

definition over_limit_patch :: string where
  "over_limit_patch = replicate 4301 (CHR ''9'')"

definition over_limit_version :: string where
  "over_limit_version = ''1.4.'' @ over_limit_patch"

definition over_limit_doc_text :: string where
  "over_limit_doc_text = ''{\"version\": \"'' @ over_limit_version @ ''\"}''"

definition patch_kind_text :: string where
  "patch_kind_text = ''{\"version_increment\": \"patch\"}''"

definition over_limit_message :: string where
  "over_limit_message =
     ''Exceeds the limit (4300 digits) for integer string conversion: '' @
     ''value has 4301 digits; use sys.set_int_max_str_digits() to increase the limit''"

definition over_limit_env :: pyenv where
  "over_limit_env =
     (example_env
        [(patch_kind_text, JObj [(''version_increment'', JStr ''patch'')]),
         (over_limit_doc_text, JObj [(''version'', JStr over_limit_version)])]
        [])
     \<lparr> exc_str := (\<lambda>e. over_limit_message) \<rparr>"

text \<open>An environment for a run of the Batch Updater on the document with every field: the
  client is built and the API answers every prompt with the fenced object that asks for a
  patch bump.\<close>

definition answering_env :: pyenv where
  "answering_env =
     (example_env [(full_doc_lf, JObj full_doc_items)] [])
     \<lparr> messages_create := (\<lambda>prompt. Inr bump_reply) \<rparr>"

section \<open>Auxiliary facts\<close>


lemma bind_res_simps [simp]:
  "bind_res (Inl e) f = Inl e"
  "bind_res (Inr x) f = f x"
  by (simp_all add: bind_res_def)

lemma bind_res_eq_Inr: "bind_res m f = Inr y \<longleftrightarrow> (\<exists>x. m = Inr x \<and> f x = Inr y)"
  by (cases m) simp_all

lemma bind_res_cong_Inr:
  "(\<And>x. m = Inr x \<Longrightarrow> f x = g x) \<Longrightarrow> bind_res m f = bind_res m g"
  by (cases m) simp_all

lemma setitem_Inr:
  "setitem x k v = Inr y \<longleftrightarrow> (\<exists>kvs. x = JObj kvs \<and> y = JObj (AList.update k v kvs))"
  by (cases x) auto

lemma getitem_Inr:
  "getitem x k = Inr y \<longleftrightarrow> (\<exists>kvs. x = JObj kvs \<and> map_of kvs k = Some y)"
  by (cases x) (auto split: option.splits)

lemma assign_property_Inr:
  "assign_property config cat name k v = Inr config' \<longleftrightarrow>
     (\<exists>kvs g e. config = JObj kvs \<and> map_of kvs cat = Some (JObj g) \<and>
        map_of g name = Some (JObj e) \<and>
        config' = JObj (AList.update cat
                          (JObj (AList.update name (JObj (AList.update k v e)) g)) kvs))"
  unfolding assign_property_def
  by (auto simp: bind_res_eq_Inr setitem_Inr getitem_Inr)

lemma assign_property_top_get:
  "assign_property config cat name k v = Inr config' \<Longrightarrow> key \<noteq> cat \<Longrightarrow>
     top_get config' key = top_get config key"
  by (auto simp: assign_property_Inr top_get_def update_conv')

lemma assign_property_absent:
  "assign_property config cat n k v = Inr config' \<Longrightarrow> n \<noteq> name \<Longrightarrow>
     key_absent config cat name \<Longrightarrow> key_absent config' cat name"
  by (auto simp: assign_property_Inr update_conv')

lemma update_properties_top_get:
  "update_properties env cat label name props (config, changes) = Inr (config', changes') \<Longrightarrow>
     key \<noteq> cat \<Longrightarrow> top_get config' key = top_get config key"
proof (induction props arbitrary: config changes)
  case Nil
  then show ?case by simp
next
  case (Cons p props)
  obtain k v where p: "p = (k, v)" by (cases p)
  from Cons.prems(1) obtain c1 where
    a: "assign_property config cat name k v = Inr c1" and
    r: "update_properties env cat label name props
          (c1, changes @ [label @ ''.'' @ name @ ''.'' @ k @ '': '' @ py_str env v])
        = Inr (config', changes')"
    by (auto simp: p bind_res_eq_Inr)
  from Cons.IH[OF r Cons.prems(2)] assign_property_top_get[OF a Cons.prems(2)]
  show ?case by simp
qed

lemma update_properties_absent:
  "update_properties env cat label n props (config, changes) = Inr (config', changes') \<Longrightarrow>
     n \<noteq> name \<Longrightarrow> key_absent config cat name \<Longrightarrow> key_absent config' cat name"
proof (induction props arbitrary: config changes)
  case Nil
  then show ?case by simp
next
  case (Cons p props)
  obtain k v where p: "p = (k, v)" by (cases p)
  from Cons.prems(1) obtain c1 where
    a: "assign_property config cat n k v = Inr c1" and
    r: "update_properties env cat label n props
          (c1, changes @ [label @ ''.'' @ n @ ''.'' @ k @ '': '' @ py_str env v])
        = Inr (config', changes')"
    by (auto simp: p bind_res_eq_Inr)
  from assign_property_absent[OF a Cons.prems(2) Cons.prems(3)] Cons.IH[OF r Cons.prems(2)]
  show ?case by simp
qed

lemma update_properties_changes:
  "update_properties env cat label name props (config, changes) = Inr (config', changes') \<Longrightarrow>
     \<exists>extra. changes' = changes @ extra \<and> length extra = length props"
proof (induction props arbitrary: config changes)
  case Nil
  then show ?case by simp
next
  case (Cons p props)
  obtain k v where p: "p = (k, v)" by (cases p)
  from Cons.prems(1) obtain c1 where
    r: "update_properties env cat label name props
          (c1, changes @ [label @ ''.'' @ name @ ''.'' @ k @ '': '' @ py_str env v])
        = Inr (config', changes')"
    by (auto simp: p bind_res_eq_Inr)
  from Cons.IH[OF r] show ?case by auto
qed

lemma dict_get_Inr:
  "dict_get x k d = Inr y \<longleftrightarrow>
     (\<exists>kvs. x = JObj kvs \<and> y = (case map_of kvs k of Some v \<Rightarrow> v | None \<Rightarrow> d))"
  by (cases x) auto

lemma update_category_step:
  assumes "update_category env cat label ((name, data) # rest) (config, changes) = Inr st'"
  shows "(\<exists>c1 ch1 props. dict_items data = Inr props \<and>
            update_properties env cat label name props (config, changes) = Inr (c1, ch1) \<and>
            update_category env cat label rest (c1, ch1) = Inr st')
         \<or> update_category env cat label rest (config, changes) = Inr st'"
  using assms by (auto simp: bind_res_eq_Inr split: if_splits)

lemma update_category_top_get:
  "update_category env cat label items (config, changes) = Inr (config', changes') \<Longrightarrow>
     key \<noteq> cat \<Longrightarrow> top_get config' key = top_get config key"
proof (induction items arbitrary: config changes)
  case Nil
  then show ?case by simp
next
  case (Cons it items)
  obtain name data where it: "it = (name, data)" by (cases it)
  from update_category_step[OF Cons.prems(1)[unfolded it]]
  show ?case
  proof
    assume "\<exists>c1 ch1 props. dict_items data = Inr props \<and>
            update_properties env cat label name props (config, changes) = Inr (c1, ch1) \<and>
            update_category env cat label items (c1, ch1) = Inr (config', changes')"
    then obtain c1 ch1 props where
      u: "update_properties env cat label name props (config, changes) = Inr (c1, ch1)" and
      r: "update_category env cat label items (c1, ch1) = Inr (config', changes')"
      by blast
    from Cons.IH[OF r Cons.prems(2)] update_properties_top_get[OF u Cons.prems(2)]
    show ?thesis by simp
  next
    assume "update_category env cat label items (config, changes) = Inr (config', changes')"
    from Cons.IH[OF this Cons.prems(2)] show ?thesis .
  qed
qed

lemma update_category_changes:
  "update_category env cat label items (config, changes) = Inr (config', changes') \<Longrightarrow>
     \<exists>extra. changes' = changes @ extra"
proof (induction items arbitrary: config changes)
  case Nil
  then show ?case by simp
next
  case (Cons it items)
  obtain name data where it: "it = (name, data)" by (cases it)
  from update_category_step[OF Cons.prems(1)[unfolded it]]
  show ?case
  proof
    assume "\<exists>c1 ch1 props. dict_items data = Inr props \<and>
            update_properties env cat label name props (config, changes) = Inr (c1, ch1) \<and>
            update_category env cat label items (c1, ch1) = Inr (config', changes')"
    then obtain c1 ch1 props where
      u: "update_properties env cat label name props (config, changes) = Inr (c1, ch1)" and
      r: "update_category env cat label items (c1, ch1) = Inr (config', changes')"
      by blast
    from Cons.IH[OF r] update_properties_changes[OF u]
    show ?thesis by auto
  next
    assume "update_category env cat label items (config, changes) = Inr (config', changes')"
    from Cons.IH[OF this] show ?thesis .
  qed
qed

lemma key_absent_py_in:
  "key_absent config cat name \<Longrightarrow>
     bind_res (dict_get config cat (JObj [])) (py_in name) = Inr False"
  by (cases config) (auto split: option.splits json.splits)

lemma update_category_absent:
  "update_category env cat label items (config, changes) = Inr (config', changes') \<Longrightarrow>
     key_absent config cat name \<Longrightarrow> key_absent config' cat name"
proof (induction items arbitrary: config changes)
  case Nil
  then show ?case by simp
next
  case (Cons it items)
  obtain n data where it: "it = (n, data)" by (cases it)
  show ?case
  proof (cases "n = name")
    case True
    from key_absent_py_in[OF Cons.prems(2)] Cons.prems(1)
    have "update_category env cat label items (config, changes) = Inr (config', changes')"
      by (auto simp: it True bind_res_eq_Inr)
    from Cons.IH[OF this Cons.prems(2)] show ?thesis .
  next
    case False
    from update_category_step[OF Cons.prems(1)[unfolded it]]
    show ?thesis
    proof
      assume "\<exists>c1 ch1 props. dict_items data = Inr props \<and>
            update_properties env cat label n props (config, changes) = Inr (c1, ch1) \<and>
            update_category env cat label items (c1, ch1) = Inr (config', changes')"
      then obtain c1 ch1 props where
        u: "update_properties env cat label n props (config, changes) = Inr (c1, ch1)" and
        r: "update_category env cat label items (c1, ch1) = Inr (config', changes')"
        by blast
      from Cons.IH[OF r update_properties_absent[OF u False Cons.prems(2)]]
      show ?thesis .
    next
      assume "update_category env cat label items (config, changes) = Inr (config', changes')"
      from Cons.IH[OF this Cons.prems(2)] show ?thesis .
    qed
  qed
qed

text \<open>An update entry whose key the category lacks can be dropped from the payload.\<close>

lemma update_category_skip:
  "key_absent config cat name \<Longrightarrow>
     update_category env cat label items (config, changes)
       = update_category env cat label (filter (\<lambda>e. fst e \<noteq> name) items) (config, changes)"
proof (induction items arbitrary: config changes)
  case Nil
  then show ?case by simp
next
  case (Cons it items)
  obtain n data where it: "it = (n, data)" by (cases it)
  show ?case
  proof (cases "n = name")
    case True
    from key_absent_py_in[OF Cons.prems]
    have "update_category env cat label (it # items) (config, changes)
            = update_category env cat label items (config, changes)"
      by (auto simp: it True bind_res_eq_Inr)
    with Cons.IH[OF Cons.prems] show ?thesis by (simp add: it True)
  next
    case False
    have inner: "bind_res (update_properties env cat label n props (config, changes))
              (update_category env cat label items)
          = bind_res (update_properties env cat label n props (config, changes))
              (update_category env cat label (filter (\<lambda>e. fst e \<noteq> name) items))" for props
    proof (rule bind_res_cong_Inr)
      fix st assume u: "update_properties env cat label n props (config, changes) = Inr st"
      obtain c1 ch1 where st: "st = (c1, ch1)" by (cases st)
      from update_properties_absent[OF u[unfolded st] False Cons.prems]
      have "key_absent c1 cat name" .
      from Cons.IH[OF this] show "update_category env cat label items st
        = update_category env cat label (filter (\<lambda>e. fst e \<noteq> name) items) st"
        by (simp add: st)
    qed
    show ?thesis
      using False Cons.IH[OF Cons.prems]
      by (auto simp: it inner intro!: bind_res_cong_Inr)
  qed
qed

lemma setitem_top_get:
  "setitem x k v = Inr y \<Longrightarrow> key \<noteq> k \<Longrightarrow> top_get y key = top_get x key"
  by (auto simp: setitem_Inr top_get_def update_conv')

lemma setitem_absent:
  "setitem x k v = Inr y \<Longrightarrow> cat \<noteq> k \<Longrightarrow> key_absent y cat name = key_absent x cat name"
  by (auto simp: setitem_Inr update_conv')

lemma version_step_top_get:
  "version_step env updates config = Inr (config1, changes1) \<Longrightarrow> k \<noteq> ''version'' \<Longrightarrow>
     top_get config1 k = top_get config k"
  unfolding version_step_def
  by (auto simp: bind_res_eq_Inr split: if_splits dest: setitem_top_get)

lemma version_step_absent:
  "version_step env updates config = Inr (config1, changes1) \<Longrightarrow> cat \<noteq> ''version'' \<Longrightarrow>
     key_absent config1 cat name = key_absent config cat name"
  unfolding version_step_def
  by (auto simp: bind_res_eq_Inr split: if_splits dest: setitem_absent)

lemma merge_updates_Inr:
  "merge_updates env updates config = Inr (config', changes) \<longleftrightarrow>
     (\<exists>config1 changes1 config2 gpu_items c3 ch3 model_items.
        version_step env updates config = Inr (config1, changes1) \<and>
        setitem config1 ''lastUpdated'' (JStr (now_strftime env 0 ''%Y-%m-%dT%H:%M:%SZ''))
          = Inr config2 \<and>
        bind_res (dict_get updates ''gpuTypes_updates'' (JObj [])) dict_items = Inr gpu_items \<and>
        update_category env ''gpuTypes'' ''gpuTypes'' gpu_items (config2, changes1)
          = Inr (c3, ch3) \<and>
        bind_res (dict_get updates ''modelArchitectures_updates'' (JObj [])) dict_items
          = Inr model_items \<and>
        update_category env ''modelArchitectures'' ''models'' model_items (c3, ch3)
          = Inr (config', changes))"
  unfolding merge_updates_def
  by (simp add: bind_res_eq_Inr split: prod.splits)

lemma merge_updates_frame:
  assumes m: "merge_updates env updates config = Inr (config', changes)"
    and k: "k \<noteq> ''version''" "k \<noteq> ''lastUpdated''" "k \<noteq> ''gpuTypes''"
           "k \<noteq> ''modelArchitectures''"
  shows "top_get config' k = top_get config k"
proof -
  from m obtain config1 changes1 config2 gpu_items c3 ch3 model_items where
    v: "version_step env updates config = Inr (config1, changes1)" and
    l: "setitem config1 ''lastUpdated'' (JStr (now_strftime env 0 ''%Y-%m-%dT%H:%M:%SZ''))
       = Inr config2" and
    g: "update_category env ''gpuTypes'' ''gpuTypes'' gpu_items (config2, changes1)
       = Inr (c3, ch3)" and
    a: "update_category env ''modelArchitectures'' ''models'' model_items (c3, ch3)
       = Inr (config', changes)"
    unfolding merge_updates_Inr by blast
  from version_step_top_get[OF v k(1)] have 1: "top_get config1 k = top_get config k" .
  from setitem_top_get[OF l k(2)] have 2: "top_get config2 k = top_get config1 k" .
  from update_category_top_get[OF g k(3)] have 3: "top_get c3 k = top_get config2 k" .
  from update_category_top_get[OF a k(4)] have 4: "top_get config' k = top_get c3 k" .
  from 1 2 3 4 show ?thesis by simp
qed


lemma split_str_sep:
  "d \<notin> set a \<Longrightarrow> split_str [d] (a @ d # rest) = a # split_str [d] rest"
  by (induction a) auto

lemma split_str_none: "d \<notin> set a \<Longrightarrow> split_str [d] a = [a]"
  by (induction a) auto

lemma is_digit_not_special:
  "is_digit c \<Longrightarrow> \<not> is_c_space c \<and> c \<noteq> CHR ''-'' \<and> c \<noteq> CHR ''+'' \<and> c \<noteq> CHR ''_''
     \<and> c \<noteq> CHR ''.'' \<and> (of_char c :: nat) < 128"
  by (auto simp: is_digit_def is_c_space_def)

lemma digits_no_dot: "digits a \<Longrightarrow> CHR ''.'' \<notin> set a"
  by (auto simp: digits_def list_all_iff dest: is_digit_not_special)

lemma split_version:
  "digits a \<Longrightarrow> digits b \<Longrightarrow> digits c \<Longrightarrow>
     split_str ''.'' (a @ ''.'' @ b @ ''.'' @ c) = [a, b, c]"
  using split_str_sep[of "CHR ''.''" a "b @ ''.'' @ c"] split_str_sep[of "CHR ''.''" b c]
    split_str_none[of "CHR ''.''" c]
  by (simp add: digits_no_dot)

lemma int_body_ok_digits: "s \<noteq> [] \<Longrightarrow> list_all is_digit s \<Longrightarrow> int_body_ok s"
  by (induction s rule: int_body_ok.induct) (auto dest: is_digit_not_special)

lemma filter_digits: "list_all is_digit s \<Longrightarrow> filter (\<lambda>c. c \<noteq> CHR ''_'') s = s"
  by (induction s) (auto dest: is_digit_not_special)

lemma strip_digits: "digits s \<Longrightarrow> strip_with is_c_space s = s"
proof -
  assume d: "digits s"
  then have ne: "s \<noteq> []" and all: "list_all is_digit s" by (auto simp: digits_def)
  from ne all have "is_digit (hd s)" "is_digit (last s)"
    by (auto simp: list_all_iff)
  then have h: "\<not> is_c_space (hd s)" and l: "\<not> is_c_space (last s)"
    by (auto dest: is_digit_not_special)
  from h have 1: "dropWhile is_c_space s = s" by (simp add: dropWhile_eq_self_iff)
  from l ne have 2: "dropWhile is_c_space (rev s) = rev s"
    by (simp add: dropWhile_eq_self_iff hd_rev)
  show ?thesis by (simp add: strip_with_def 1 2)
qed

lemma int_ascii_digits:
  "digits s \<Longrightarrow> int_ascii s =
     (if int_max_str_digits < length s then Inl ValueError
      else Inr (int (nat_of_digits 0 s)))"
proof -
  assume d: "digits s"
  then obtain c cs where s: "s = c # cs" by (cases s) (auto simp: digits_def)
  from d s have "is_digit c" by (simp add: digits_def)
  then have c: "c \<noteq> CHR ''-''" "c \<noteq> CHR ''+''" by (auto dest: is_digit_not_special)
  from d have ok: "int_body_ok s" and f: "filter (\<lambda>c. c \<noteq> CHR ''_'') s = s"
    by (auto simp: digits_def intro: int_body_ok_digits filter_digits)
  have "int_unsigned s =
          (if int_max_str_digits < length s then Inl ValueError
           else Inr (int (nat_of_digits 0 s)))"
    unfolding int_unsigned_def using ok f by simp
  with c show ?thesis
    unfolding int_ascii_def strip_digits[OF d] by (simp add: s)
qed

lemma digits_is_ascii: "digits s \<Longrightarrow> is_ascii s"
  by (auto simp: is_ascii_def digits_def list_all_iff dest: is_digit_not_special)

lemma py_int_digits:
  "version_part s \<Longrightarrow> py_int env s = Inr (int (nat_of_digits 0 s))"
  by (simp add: version_part_def py_int_def digits_is_ascii int_ascii_digits)

lemma py_int_over_limit:
  "digits s \<Longrightarrow> int_max_str_digits < length s \<Longrightarrow> py_int env s = Inl ValueError"
  by (simp add: py_int_def digits_is_ascii int_ascii_digits)

lemma digit_val_le: "is_digit c \<Longrightarrow> digit_val c \<le> 9"
  unfolding is_digit_def digit_val_def by linarith

lemma nat_of_digits_bound:
  "list_all is_digit s \<Longrightarrow> nat_of_digits acc s < (acc + 1) * 10 ^ length s"
proof (induction s arbitrary: acc)
  case Nil
  then show ?case by simp
next
  case (Cons c cs)
  from Cons.prems have d: "digit_val c \<le> 9" and r: "list_all is_digit cs"
    by (simp_all add: digit_val_le)
  from Cons.IH[OF r, of "10 * acc + digit_val c"]
  have "nat_of_digits (10 * acc + digit_val c) cs
          < (10 * acc + digit_val c + 1) * 10 ^ length cs" .
  also from d have "\<dots> \<le> (10 * acc + 10) * 10 ^ length cs"
    by (intro mult_le_mono1) simp
  also have "\<dots> = (acc + 1) * 10 ^ length (c # cs)" by (simp add: algebra_simps)
  finally show ?case by simp
qed

lemma str_nat_length: "n < 10 ^ k \<Longrightarrow> 0 < k \<Longrightarrow> length (str_nat n) \<le> k"
proof (induction n arbitrary: k rule: str_nat.induct)
  case (1 n)
  show ?case
  proof (cases "n < 10")
    case True
    with "1.prems"(2) show ?thesis by (simp add: str_nat.simps[of n])
  next
    case False
    from "1.prems"(2) obtain j where k: "k = Suc j" by (cases k) auto
    from False "1.prems"(1) k have j: "0 < j" by (cases j) auto
    from "1.prems"(1) k have "n div 10 < 10 ^ j" by (simp add: div_less_iff_less_mult)
    from "1.IH"[OF False this j] False k show ?thesis by (simp add: str_nat.simps[of n])
  qed
qed

lemma str_nat_digits_length: "digits s \<Longrightarrow> length (str_nat (nat_of_digits 0 s)) \<le> length s"
  using nat_of_digits_bound[of s 0] by (auto simp: digits_def intro: str_nat_length)

lemma str_int_nat: "fits n \<Longrightarrow> str_int (int n) = Inr (str_nat n)"
  by (simp add: fits_def str_int_def decimal_def)

lemma str_int_Suc: "fits (Suc n) \<Longrightarrow> str_int (int n + 1) = Inr (str_nat (Suc n))"
  using str_int_nat[of "Suc n"] by (simp add: add.commute)

lemma str_int_0: "str_int 0 = Inr ''0''"
  using str_int_nat[of 0]
  by (simp add: fits_def str_nat.simps[of 0] digit_chr_def int_max_str_digits_def)

lemma version_part_fits: "version_part s \<Longrightarrow> fits (nat_of_digits 0 s)"
  using str_nat_digits_length[of s] by (simp add: version_part_def fits_def)

lemma gateway_bump_digits:
  assumes "version_part a" "version_part b" "version_part c"
    and "if kind = JStr ''minor'' then fits (Suc (nat_of_digits 0 b))
         else fits (Suc (nat_of_digits 0 c))"
  shows "gateway_bump env (JStr (a @ ''.'' @ b @ ''.'' @ c)) kind =
     Inr (if kind = JStr ''minor''
          then str_nat (nat_of_digits 0 a) @ ''.'' @ str_nat (Suc (nat_of_digits 0 b)) @ ''.0''
          else str_nat (nat_of_digits 0 a) @ ''.'' @ str_nat (nat_of_digits 0 b) @ ''.''
                 @ str_nat (Suc (nat_of_digits 0 c)))"
proof -
  from assms(1-3) have d: "digits a" "digits b" "digits c"
    by (simp_all add: version_part_def)
  from assms(1-3) have f: "fits (nat_of_digits 0 a)" "fits (nat_of_digits 0 b)"
    by (simp_all add: version_part_fits)
  show ?thesis
    unfolding gateway_bump_def
    using assms(4)
    by (simp add: split_version[OF d] bump_parts_def list_index_def py_int_digits assms(1-3)
          version_string_def str_int_nat str_int_Suc str_int_0 f
          del: append_Cons append_Nil)
qed

text \<open>The limit on the way back: a patch part of 4300 nines converts, and the number one
  higher has 4301 digits, which \<open>str()\<close> refuses.\<close>

lemma nat_of_digits_nines:
  "nat_of_digits acc (replicate n (CHR ''9'')) = (acc + 1) * 10 ^ n - 1"
proof (induction n arbitrary: acc)
  case 0
  then show ?case by simp
next
  case (Suc n)
  have "digit_val (CHR ''9'') = 9" by (simp add: digit_val_def)
  then show ?case by (simp add: Suc algebra_simps)
qed

lemma str_nat_power_length: "length (str_nat (10 ^ n)) = Suc n"
proof (induction n)
  case 0
  then show ?case by (simp add: str_nat.simps[of "Suc 0"])
next
  case (Suc n)
  have "\<not> (10::nat) ^ Suc n < 10" by simp
  then show ?case using Suc by (simp add: str_nat.simps[of "10 ^ Suc n"] del: power_Suc) (simp)
qed

lemma nines_part: "0 < n \<Longrightarrow> digits (replicate n (CHR ''9''))"
  by (auto simp: digits_def is_digit_def list_all_iff)

lemma bump_past_limit:
  "gateway_bump env (JStr (''1.4.'' @ replicate int_max_str_digits (CHR ''9''))) (JStr ''patch'')
     = Inl ValueError"
proof -
  let ?p = "replicate int_max_str_digits (CHR ''9'')"
  have d: "digits ''1''" "digits ''4''" "digits ?p"
    by (simp_all add: nines_part int_max_str_digits_def) (simp_all add: digits_def is_digit_def)
  have vp: "version_part ''1''" "version_part ''4''" "version_part ?p"
    using d by (simp_all add: version_part_def) (simp_all add: int_max_str_digits_def)
  have sp: "split_str ''.'' (''1.4.'' @ ?p) = [''1'', ''4'', ?p]"
    using split_version[OF d] by simp
  have v: "int (nat_of_digits 0 ?p) + 1 = int (10 ^ int_max_str_digits)"
    by (simp add: nat_of_digits_nines)
  have s: "str_int (int (10 ^ int_max_str_digits)) = Inl ValueError"
    unfolding str_int_def by (simp add: str_nat_power_length del: of_nat_power)
  have f: "fits (nat_of_digits 0 ''1'')" "fits (nat_of_digits 0 ''4'')"
    using vp by (simp_all add: version_part_fits del: nat_of_digits.simps)
  have g: "gateway_bump env (JStr (''1.4.'' @ ?p)) (JStr ''patch'')
             = bump_parts env [''1'', ''4'', ?p] (JStr ''patch'')"
    by (simp only: gateway_bump_def json.case sp)
  show ?thesis
    unfolding g
    by (simp add: bump_parts_def list_index_def py_int_digits vp version_string_def
          str_int_nat f v s del: nat_of_digits.simps of_nat_power)
qed

subsection \<open>Files and the apply operation\<close>

lemma files_emit [simp]: "files (emit ev w) = files w"
  by (simp add: emit_def)

lemma trace_emit [simp]: "trace (emit ev w) = trace w @ [ev]"
  by (simp add: emit_def)

lemma files_write_text [simp]:
  "files (write_text env path s w) = (files w)(path \<mapsto> encode_text env s)"
  by (simp add: write_text_def)

lemma trace_write_text [simp]: "trace (write_text env path s w) = trace w @ [WriteText path]"
  by (simp add: write_text_def emit_def)

lemma read_config_Inr:
  "read_config env w = (Inr config, w1) \<longleftrightarrow>
     (\<exists>raw body. files w (ALLOWED_CONFIG_FILE env) = Some raw \<and>
        decode_text env raw = Inr body \<and> json_loads env body = Inr config \<and>
        w1 = emit (ReadText (ALLOWED_CONFIG_FILE env)) (emit (Stat (ALLOWED_CONFIG_FILE env)) w))"
  unfolding read_config_def validate_file_access_def
  by (auto simp: bind_res_eq_Inr split: option.splits)

lemma read_config_files: "read_config env w = (r, w1) \<Longrightarrow> files w1 = files w"
  unfolding read_config_def validate_file_access_def
  by (auto split: option.splits)

lemma backup_path_differs: "p @ ''.backup-'' @ s \<noteq> p"
proof
  assume "p @ ''.backup-'' @ s = p"
  then have "length (p @ ''.backup-'' @ s) = length p" by simp
  then show False by simp
qed

lemma write_config_after_read:
  assumes "read_config env w = (Inr config, w1)"
  shows "\<exists>result w2. write_config env c backup w1 = (Inr result, w2) \<and>
           files w2 (ALLOWED_CONFIG_FILE env) = Some (encode_text env (json_dumps env c))"
proof -
  from assms obtain raw body where
    f: "files w (ALLOWED_CONFIG_FILE env) = Some raw" and
    d: "decode_text env raw = Inr body" and
    w1: "w1 = emit (ReadText (ALLOWED_CONFIG_FILE env)) (emit (Stat (ALLOWED_CONFIG_FILE env)) w)"
    unfolding read_config_Inr by blast
  show ?thesis
    unfolding write_config_def validate_file_access_def
    by (simp add: w1 f d Let_def)
qed

lemma apply_confirmed:
  assumes c: "user_confirmed params"
    and l: "json_loads env (updates_json params) = Inr updates"
    and r: "read_config env w = (Inr config, w1)"
  shows "case merge_updates env updates config of
           Inl e \<Rightarrow> roi_config_apply env params w = (error_result env e, w1)
         | Inr (config', changes) \<Rightarrow>
             (\<exists>result w2.
                write_config env config' (create_backup params) w1 = (Inr result, w2) \<and>
                roi_config_apply env params w = (Returned (applied_text changes result), w2) \<and>
                files w2 (ALLOWED_CONFIG_FILE env)
                  = Some (encode_text env (json_dumps env config')))"
proof (cases "merge_updates env updates config")
  case (Inl e)
  then show ?thesis by (simp add: roi_config_apply_def c l r)
next
  case (Inr st)
  obtain config' changes where st: "st = (config', changes)" by (cases st)
  from write_config_after_read[OF r, of config' "create_backup params"]
  obtain result w2 where
    "write_config env config' (create_backup params) w1 = (Inr result, w2)"
    "files w2 (ALLOWED_CONFIG_FILE env) = Some (encode_text env (json_dumps env config'))"
    by blast
  then show ?thesis by (simp add: roi_config_apply_def c l r Inr st)
qed

subsection \<open>The worked example, evaluated\<close>

lemma sample_env_simps [simp]:
  "ALLOWED_CONFIG_FILE sample_env = example_path"
  "os_linesep sample_env = [LF]"
  "utf8_valid sample_env = is_ascii"
  "now_strftime sample_env = example_now"
  "repr_value sample_env = (\<lambda>v. ''value'')"
  by (simp_all add: sample_env_def example_env_def)

lemma sample_doc_text_plain:
  "is_ascii sample_doc_text" "universal_newlines sample_doc_text = sample_doc_text"
  by (simp_all add: sample_doc_text_def is_ascii_def)

lemma sample_loads:
  "json_loads sample_env sample_doc_text = Inr sample_doc"
  "json_loads sample_env sample_payload_text = Inr sample_payload"
  "json_loads sample_env sample_payload_known_text = Inr sample_payload_known"
  by (simp_all add: sample_env_def example_env_def sample_doc_text_def sample_payload_text_def sample_payload_known_text_def)

lemma sample_read:
  "read_config sample_env (world_with example_path sample_doc_text) = (Inr sample_doc, sample_world1)"
  by (simp add: read_config_def validate_file_access_def world_with_def decode_text_def
        sample_doc_text_plain sample_loads emit_def sample_world1_def)

lemma sample_merge:
  "merge_updates sample_env sample_payload sample_doc
     = Inr (sample_result, [''Version: 1.4.9 -> 1.5.0'', ''gpuTypes.H100.price: 25000''])"
  by (simp add: merge_updates_def version_step_def sample_payload_def sample_doc_def sample_items_def
        sample_result_def gateway_bump_def bump_parts_def list_index_def py_int_def
        is_ascii_def int_ascii_def strip_with_def is_c_space_def int_unsigned_def is_digit_def
        digit_val_def version_string_def str_int_def decimal_def int_max_str_digits_def
        str_nat.simps digit_chr_def example_now_def assign_property_def)

subsection \<open>Versions, fences and the tool boundary\<close>


lemma split_str_nonempty: "split_str sep s \<noteq> []"
  by (induction sep s rule: split_str.induct) (auto split: list.splits)

lemma split_str_length_contains:
  "sep \<noteq> [] \<Longrightarrow> str_contains sep s \<Longrightarrow> 2 \<le> length (split_str sep s)"
proof (induction sep s rule: split_str.induct)
  case (1 sep)
  then show ?case by simp
next
  case (2 sep c cs)
  show ?case
  proof (cases "starts_with sep (c # cs)")
    case True
    have "1 \<le> length (split_str sep (drop (length sep) (c # cs)))"
      using split_str_nonempty[of sep "drop (length sep) (c # cs)"]
      by (cases "split_str sep (drop (length sep) (c # cs))") simp_all
    with True "2.prems"(1) show ?thesis by simp
  next
    case False
    with "2.prems" have "str_contains sep cs" by simp
    with "2.IH"(2) False "2.prems"(1) have "2 \<le> length (split_str sep cs)" by simp
    with False show ?thesis by (auto split: list.splits)
  qed
qed

lemma fenced_body_total: "\<exists>json_str. fenced_body response_text = Inr json_str"
proof (cases "str_contains fence_json response_text")
  case True
  have "fence_json \<noteq> []" by (simp add: fence_json_def)
  from split_str_length_contains[OF this True]
  have 1: "1 < length (split_str fence_json response_text)" by simp
  have 2: "0 < length (split_str fence (split_str fence_json response_text ! 1))"
    using split_str_nonempty by simp
  show ?thesis
    using True 1 2 by (simp add: fenced_body_def list_index_def)
next
  case False
  then show ?thesis by (simp add: fenced_body_def)
qed

text \<open>The two tools with a \<open>try\<close> block always return a text.\<close>

lemma roi_config_read_returns: "\<exists>s. fst (roi_config_read env params w) = Returned s"
  by (auto simp: roi_config_read_def error_result_def
           split: prod.splits sum.splits option.splits)

lemma roi_config_apply_returns: "\<exists>s. fst (roi_config_apply env params w) = Returned s"
  by (auto simp: roi_config_apply_def error_result_def
           split: prod.splits sum.splits option.splits)

subsection \<open>The Batch Updater as written\<close>

text \<open>
  \<open>UPDATE_PROMPT\<close> shows the caller a JSON object in literal braces, and \<open>str.format\<close> reads
  the first of them as a replacement field whose name is the text up to the colon. No
  keyword argument has that name, so \<open>get_claude_updates\<close> raises \<open>KeyError\<close> before it
  calls the API, and every run of \<open>main\<close> ends with status 1 and writes nothing.
\<close>

lemma format_prompt_raises:
  "py_format env UPDATE_PROMPT [(''date'', d), (''version'', v)]
     = Inl (KeyError ([LF] @ ''  \"version_increment\"''))"
  by (simp add: py_format_def UPDATE_PROMPT_def format_field_def plain_name_def name_end_def
        is_digit_def Let_def)

lemma get_claude_updates_raises: "\<exists>e. get_claude_updates env current_config = Inl e"
  by (cases "dict_get current_config ''version'' (JStr ''unknown'')")
     (auto simp: get_claude_updates_def format_prompt_raises split: option.splits)

lemma main_always_fails:
  "exit_status (fst (main env w)) = 1 \<and> files (fst (snd (main env w))) = files w"
proof (cases "files w CONFIG_FILE")
  case None
  then show ?thesis by (simp add: main_def Let_def)
next
  case (Some raw)
  show ?thesis
  proof (cases "bind_res (decode_text env raw) (json_loads env)")
    case (Inl e)
    with Some show ?thesis by (simp add: main_def Let_def)
  next
    case (Inr config)
    from get_claude_updates_raises obtain e where "get_claude_updates env config = Inl e"
      by blast
    with Some Inr show ?thesis
      by (simp add: main_def Let_def split: sum.splits)
  qed
qed

subsection \<open>Reading\<close>

lemma is_ascii_simps [simp]:
  "is_ascii []" "is_ascii (c # cs) \<longleftrightarrow> (of_char c :: nat) < 128 \<and> is_ascii cs"
  by (simp_all add: is_ascii_def)

lemma is_ascii_append [simp]: "is_ascii (a @ b) \<longleftrightarrow> is_ascii a \<and> is_ascii b"
  by (simp add: is_ascii_def)

lemma is_ascii_replicate [simp]:
  "is_ascii (replicate n c) \<longleftrightarrow> n = 0 \<or> (of_char c :: nat) < 128"
  by (auto simp: is_ascii_def list_all_iff)

lemma universal_newlines_plain: "CR \<notin> set s \<Longrightarrow> universal_newlines s = s"
  by (induction s rule: universal_newlines.induct) auto

lemma get_file_hash_Some:
  "files w (ALLOWED_CONFIG_FILE env) = Some raw \<Longrightarrow>
     get_file_hash env w
       = (take 12 (sha256_hexdigest env raw),
          emit (ReadBytes (ALLOWED_CONFIG_FILE env)) (emit (Stat (ALLOWED_CONFIG_FILE env)) w))"
  by (simp add: get_file_hash_def validate_file_access_def)

lemma read_metadata_rendering:
  assumes "files w (ALLOWED_CONFIG_FILE env) = Some raw"
    and "decode_text env raw = Inr body"
    and "json_loads env body = Inr (JObj doc)"
    and "section_arg params = Some ''metadata''"
  shows "fst (roi_config_read env params w) =
     Returned
       (let version = (case map_of doc ''version'' of Some v \<Rightarrow> v | None \<Rightarrow> JNull);
            lastUpdated = (case map_of doc ''lastUpdated'' of Some l \<Rightarrow> l | None \<Rightarrow> JNull);
            data = JObj [(''version'', version), (''lastUpdated'', lastUpdated)]
        in if response_format params = JSON
           then json_dumps env
                  (JObj [(''file_hash'', JStr (take 12 (sha256_hexdigest env raw))),
                         (''data'', data)])
           else ''# ROI Config'' @ [LF] @ ''Version: '' @ py_str env version @ [LF]
                  @ take 3000 (json_dumps env data))"
proof -
  have r: "read_config env w
     = (Inr (JObj doc),
        emit (ReadText (ALLOWED_CONFIG_FILE env)) (emit (Stat (ALLOWED_CONFIG_FILE env)) w))"
    using assms(1-3) by (simp add: read_config_Inr)
  have h: "get_file_hash env
              (emit (ReadText (ALLOWED_CONFIG_FILE env)) (emit (Stat (ALLOWED_CONFIG_FILE env)) w))
           = (take 12 (sha256_hexdigest env raw),
              emit (ReadBytes (ALLOWED_CONFIG_FILE env))
                (emit (Stat (ALLOWED_CONFIG_FILE env))
                   (emit (ReadText (ALLOWED_CONFIG_FILE env))
                      (emit (Stat (ALLOWED_CONFIG_FILE env)) w))))"
    using assms(1) by (simp add: get_file_hash_Some)
  show ?thesis
    using assms(4)
    by (simp add: roi_config_read_def r h read_data_def Let_def)
qed

lemma long_doc_text_plain:
  "is_ascii long_doc_text" "universal_newlines long_doc_text = long_doc_text"
  by (simp_all add: long_doc_text_def long_version_def universal_newlines_plain)

lemma take_long_data_text:
  "take 3000 long_data_text = ''{'' @ [LF] @ ''  \"version\": \"'' @ replicate 2984 (CHR ''9'')"
  by (simp add: long_data_text_def long_version_def)

subsection \<open>Keys a category lacks\<close>

lemma key_absent_setitem_other:
  "cat' \<noteq> cat \<Longrightarrow>
     key_absent (JObj (AList.update cat x kvs)) cat' name = key_absent (JObj kvs) cat' name"
  by (simp add: update_conv')

lemma assign_property_other_absent:
  "assign_property config cat n k v = Inr config' \<Longrightarrow> cat' \<noteq> cat \<Longrightarrow>
     key_absent config cat' name \<Longrightarrow> key_absent config' cat' name"
  by (auto simp: assign_property_Inr update_conv')

lemma update_properties_other_absent:
  "update_properties env cat label n props (config, changes) = Inr (config', changes') \<Longrightarrow>
     cat' \<noteq> cat \<Longrightarrow> key_absent config cat' name \<Longrightarrow> key_absent config' cat' name"
proof (induction props arbitrary: config changes)
  case Nil
  then show ?case by simp
next
  case (Cons p props)
  obtain k v where p: "p = (k, v)" by (cases p)
  from Cons.prems(1) obtain c1 where
    a: "assign_property config cat n k v = Inr c1" and
    r: "update_properties env cat label n props
          (c1, changes @ [label @ ''.'' @ n @ ''.'' @ k @ '': '' @ py_str env v])
        = Inr (config', changes')"
    by (auto simp: p bind_res_eq_Inr)
  from assign_property_other_absent[OF a Cons.prems(2) Cons.prems(3)]
    Cons.IH[OF r Cons.prems(2)]
  show ?case by simp
qed

lemma update_category_other_absent:
  "update_category env cat label items (config, changes) = Inr (config', changes') \<Longrightarrow>
     cat' \<noteq> cat \<Longrightarrow> key_absent config cat' name \<Longrightarrow> key_absent config' cat' name"
proof (induction items arbitrary: config changes)
  case Nil
  then show ?case by simp
next
  case (Cons it items)
  obtain n data where it: "it = (n, data)" by (cases it)
  from update_category_step[OF Cons.prems(1)[unfolded it]]
  show ?case
  proof
    assume "\<exists>c1 ch1 props. dict_items data = Inr props \<and>
            update_properties env cat label n props (config, changes) = Inr (c1, ch1) \<and>
            update_category env cat label items (c1, ch1) = Inr (config', changes')"
    then obtain c1 ch1 props where
      u: "update_properties env cat label n props (config, changes) = Inr (c1, ch1)" and
      r: "update_category env cat label items (c1, ch1) = Inr (config', changes')"
      by blast
    from Cons.IH[OF r Cons.prems(2)
           update_properties_other_absent[OF u Cons.prems(2) Cons.prems(3)]]
    show ?thesis .
  next
    assume "update_category env cat label items (config, changes) = Inr (config', changes')"
    from Cons.IH[OF this Cons.prems(2) Cons.prems(3)] show ?thesis .
  qed
qed

lemma merge_updates_absent:
  assumes m: "merge_updates env updates config = Inr (config', changes)"
    and a: "key_absent config ''gpuTypes'' name"
  shows "key_absent config' ''gpuTypes'' name"
proof -
  from m obtain config1 changes1 config2 gpu_items c3 ch3 model_items where
    v: "version_step env updates config = Inr (config1, changes1)" and
    l: "setitem config1 ''lastUpdated'' (JStr (now_strftime env 0 ''%Y-%m-%dT%H:%M:%SZ''))
       = Inr config2" and
    g: "update_category env ''gpuTypes'' ''gpuTypes'' gpu_items (config2, changes1)
       = Inr (c3, ch3)" and
    ma: "update_category env ''modelArchitectures'' ''models'' model_items (c3, ch3)
       = Inr (config', changes)"
    unfolding merge_updates_Inr by blast
  from version_step_absent[OF v, of "''gpuTypes''" name] a
  have 1: "key_absent config1 ''gpuTypes'' name" by simp
  from setitem_absent[OF l, of "''gpuTypes''" name] 1
  have 2: "key_absent config2 ''gpuTypes'' name" by simp
  from update_category_absent[OF g 2] have 3: "key_absent c3 ''gpuTypes'' name" .
  from update_category_other_absent[OF ma _ 3] show ?thesis by simp
qed

lemma merge_updates_skip:
  assumes a: "key_absent config ''gpuTypes'' name"
    and u: "map_of upd ''gpuTypes_updates'' = Some (JObj entries)"
  shows "merge_updates env (JObj upd) config
     = merge_updates env
         (JObj (AList.update ''gpuTypes_updates''
                  (JObj (filter (\<lambda>e. fst e \<noteq> name) entries)) upd)) config"
proof -
  let ?upd' = "AList.update ''gpuTypes_updates''
                  (JObj (filter (\<lambda>e. fst e \<noteq> name) entries)) upd"
  have vs: "version_step env (JObj ?upd') config = version_step env (JObj upd) config"
    by (simp add: version_step_def update_conv')
  have g: "bind_res (dict_get (JObj upd) ''gpuTypes_updates'' (JObj [])) dict_items
             = Inr entries"
    by (simp add: u)
  have g': "bind_res (dict_get (JObj ?upd') ''gpuTypes_updates'' (JObj [])) dict_items
             = Inr (filter (\<lambda>e. fst e \<noteq> name) entries)"
    by (simp add: update_conv')
  have ma: "dict_get (JObj ?upd') ''modelArchitectures_updates'' (JObj [])
             = dict_get (JObj upd) ''modelArchitectures_updates'' (JObj [])"
    by (simp add: update_conv')
  have step: "bind_res (setitem c1 ''lastUpdated'' s)
                (\<lambda>config2. bind_res (update_category env ''gpuTypes'' ''gpuTypes'' entries
                                      (config2, ch1)) k)
            = bind_res (setitem c1 ''lastUpdated'' s)
                (\<lambda>config2. bind_res (update_category env ''gpuTypes'' ''gpuTypes''
                                      (filter (\<lambda>e. fst e \<noteq> name) entries) (config2, ch1)) k)"
    if "version_step env (JObj upd) config = Inr (c1, ch1)" for c1 ch1 s k
  proof (rule bind_res_cong_Inr)
    fix config2 assume l: "setitem c1 ''lastUpdated'' s = Inr config2"
    from version_step_absent[OF that, of "''gpuTypes''" name] a
    have "key_absent c1 ''gpuTypes'' name" by simp
    with setitem_absent[OF l, of "''gpuTypes''" name]
    have "key_absent config2 ''gpuTypes'' name" by simp
    from update_category_skip[OF this]
    show "bind_res (update_category env ''gpuTypes'' ''gpuTypes'' entries (config2, ch1)) k
        = bind_res (update_category env ''gpuTypes'' ''gpuTypes''
                      (filter (\<lambda>e. fst e \<noteq> name) entries) (config2, ch1)) k"
      by simp
  qed
  show ?thesis
    unfolding merge_updates_def vs g g' ma
    by (rule bind_res_cong_Inr) (auto simp: step)
qed

subsection \<open>The empty payload\<close>

lemma merge_empty_payload:
  "merge_updates env (JObj []) (JObj doc)
     = Inr (JObj (AList.update ''lastUpdated''
                    (JStr (now_strftime env 0 ''%Y-%m-%dT%H:%M:%SZ'')) doc), [])"
  by (simp add: merge_updates_def version_step_def)

lemma encode_text_plain: "os_linesep env = [LF] \<Longrightarrow> encode_text env s = s"
  by (induction s) (simp_all add: encode_text_def)

text \<open>
  What a confirmed call with the empty payload does to a file that decodes and parses to
  a JSON object: it returns a text and writes the document with \<open>lastUpdated\<close> set and
  every other key as it was; with the backup flag it writes exactly one more file, which
  holds the prior file's text as decoded and encoded again. That is the prior file when
  it has no carriage return and the platform's line separator is a line feed.
\<close>

lemma empty_payload_frame:
  assumes c: "user_confirmed params"
    and l: "json_loads env (updates_json params) = Inr (JObj [])"
    and f: "files w (ALLOWED_CONFIG_FILE env) = Some raw"
    and d: "decode_text env raw = Inr body"
    and j: "json_loads env body = Inr (JObj doc)"
  shows "\<exists>response w'.
     roi_config_apply env params w = (Returned response, w') \<and>
     (let stamp = JStr (now_strftime env 0 ''%Y-%m-%dT%H:%M:%SZ'');
          stamped = AList.update ''lastUpdated'' stamp doc;
          written = encode_text env (json_dumps env (JObj stamped));
          copy_path = ALLOWED_CONFIG_FILE env @ ''.backup-''
                        @ now_strftime env 1 ''%Y%m%d-%H%M%S''
      in files w' =
           (if create_backup params
            then (files w)(copy_path \<mapsto> encode_text env body,
                           ALLOWED_CONFIG_FILE env \<mapsto> written)
            else (files w)(ALLOWED_CONFIG_FILE env \<mapsto> written)) \<and>
         map_of stamped ''lastUpdated'' = Some stamp \<and>
         (\<forall>k. k \<noteq> ''lastUpdated'' \<longrightarrow> map_of stamped k = map_of doc k) \<and>
         (os_linesep env = [LF] \<and> CR \<notin> set raw \<longrightarrow> encode_text env body = raw))"
proof -
  have r: "read_config env w
     = (Inr (JObj doc),
        emit (ReadText (ALLOWED_CONFIG_FILE env)) (emit (Stat (ALLOWED_CONFIG_FILE env)) w))"
    using f d j by (simp add: read_config_Inr)
  have b: "encode_text env body = raw" if "os_linesep env = [LF]" "CR \<notin> set raw"
    using d that
    by (auto simp: decode_text_def universal_newlines_plain encode_text_plain
             split: if_splits)
  show ?thesis
    using b
    by (simp add: roi_config_apply_def c l r merge_empty_payload write_config_def
          validate_file_access_def f d Let_def update_conv')
qed

subsection \<open>The Batch Updater from the API's answer onwards\<close>

text \<open>
  Lines 48 to 57 and 104 to 118 on their own, which no run of \<open>main\<close> reaches: with a
  response parsed as a non-empty JSON object, the document is written, without backup or
  confirmation, when \<open>version_increment\<close> is truthy and the version rule does not raise,
  and nothing is written otherwise.
\<close>

lemma batch_run_on_object:
  assumes "fenced_body response_text = Inr json_str"
    and "json_loads env (py_strip env json_str) = Inr (JObj upd)"
    and "upd \<noteq> []"
  shows "main_from_response env (JObj doc) response_text w out =
     (let kind = (case map_of upd ''version_increment'' of Some k \<Rightarrow> k | None \<Rightarrow> JNull);
          notes = (case map_of upd ''notes'' of Some n \<Rightarrow> n | None \<Rightarrow> JStr ''No notes'');
          old_version = (case map_of doc ''version'' of Some v \<Rightarrow> v | None \<Rightarrow> JStr ''1.0.0'');
          out1 = out @ [''Update notes: '' @ py_str env notes]
      in if py_truthy kind then
           (case increment_version env old_version kind of
              Inl e \<Rightarrow> (Uncaught e, w, out1)
            | Inr new_version \<Rightarrow>
                (Exit 0,
                 write_text env CONFIG_FILE
                   (json_dumps env
                      (JObj (AList.update ''lastUpdated''
                               (JStr (now_strftime env 2 ''%Y-%m-%dT%H:%M:%SZ''))
                               (AList.update ''version'' new_version doc)))) w,
                 out1 @ [''Version: '' @ py_str env old_version @ '' -> ''
                           @ py_str env new_version,
                         ''Saved updates to '' @ CONFIG_FILE]))
         else (Exit 0, w, out1 @ [''No changes were needed'']))"
  using assms
  by (simp add: main_from_response_def parse_response_def main_finish_def apply_updates_def
        Let_def split: sum.splits)

section \<open>The claims\<close>

text \<open>
  C1. For every update payload and backup flag, the apply operation called without
  confirmation returns the literal confirmation-required error string and leaves the
  world as it was: no file is opened, read or written (the trace is unchanged), and the
  result does not depend on \<open>json.loads\<close>, so the payload is not parsed.
\<close>

theorem apply_unconfirmed_refused:
  assumes "\<not> user_confirmed params"
  shows "roi_config_apply env params w
           = (Returned ''ERROR: Set user_confirmed=True to proceed'', w)"
  using assms by (simp add: roi_config_apply_def)

theorem apply_unconfirmed_refused_witness:
  "\<not> user_confirmed (sample_params\<lparr>user_confirmed := False\<rparr>) \<and>
   roi_config_apply sample_env (sample_params\<lparr>user_confirmed := False\<rparr>)
       (world_with example_path sample_doc_text)
     = (Returned ''ERROR: Set user_confirmed=True to proceed'',
        world_with example_path sample_doc_text)"
  using apply_unconfirmed_refused
          [of "sample_params\<lparr>user_confirmed := False\<rparr>" sample_env
              "world_with example_path sample_doc_text"]
  by simp

text \<open>
  C2 as stated: for every version of three dot-joined non-negative integers, when the
  payload contains a \<open>version_increment\<close>, the version is bumped, the patch part for
  every kind other than \<open>"minor"\<close>, and the old and new version are recorded as a change
  entry. The code tests the value for truth (\<open>if updates.get("version_increment")\<close>): for
  the payload \<open>{"version_increment": ""}\<close> and the version \<open>"1.4.9"\<close> nothing is bumped,
  no change entry is recorded and the file is written with version \<open>"1.4.9"\<close>, not
  \<open>"1.4.10"\<close>. And the parts go through \<open>int()\<close>, which converts no more than 4300
  digits: for the version \<open>"1.4."\<close> followed by 4301 nines and the payload
  \<open>{"version_increment": "patch"}\<close> the conversion of the patch part raises
  \<open>ValueError\<close>, the tool answers with the error text and the file is not written.
\<close>

theorem version_increment_empty_kind_counterexample:
  "json_loads empty_kind_env empty_kind_text = Inr (JObj [(''version_increment'', JStr '''')]) \<and>
   roi_config_apply empty_kind_env
       \<lparr>updates_json = empty_kind_text, user_confirmed = True, create_backup = False\<rparr>
       (world_with example_path plain_doc_text)
     = (Returned (join_lines [''# Update Applied'', ''Changes: 0'',
                              ''Config saved. Backup: None'', []]),
        \<lparr>files = Map.empty(example_path \<mapsto> stamped_doc_text),
         trace = [Stat example_path, ReadText example_path, Stat example_path,
                  WriteText example_path]\<rparr>) \<and>
   json_loads over_limit_env over_limit_doc_text
     = Inr (JObj [(''version'', JStr (''1.4.'' @ replicate 4301 (CHR ''9'')))]) \<and>
   json_loads over_limit_env patch_kind_text
     = Inr (JObj [(''version_increment'', JStr ''patch'')]) \<and>
   roi_config_apply over_limit_env
       \<lparr>updates_json = patch_kind_text, user_confirmed = True, create_backup = False\<rparr>
       (world_with example_path over_limit_doc_text)
     = (Returned (''Error: '' @ over_limit_message),
        \<lparr>files = Map.empty(example_path \<mapsto> over_limit_doc_text),
         trace = [Stat example_path, ReadText example_path]\<rparr>)"
proof -
  have e: "ALLOWED_CONFIG_FILE empty_kind_env = example_path"
    "utf8_valid empty_kind_env = is_ascii" "os_linesep empty_kind_env = [LF]"
    "now_strftime empty_kind_env = example_now"
    "json_loads empty_kind_env plain_doc_text = Inr (JObj [(''version'', JStr ''1.4.9'')])"
    "json_loads empty_kind_env empty_kind_text = Inr (JObj [(''version_increment'', JStr '''')])"
    "json_dumps empty_kind_env
       (JObj [(''version'', JStr ''1.4.9''), (''lastUpdated'', JStr ''2024-06-01T12:00:00Z'')])
       = stamped_doc_text"
    by (simp_all add: empty_kind_env_def example_env_def plain_doc_text_def empty_kind_text_def)
  have p: "is_ascii plain_doc_text" "universal_newlines plain_doc_text = plain_doc_text"
    by (simp_all add: plain_doc_text_def universal_newlines_plain)
  have r: "read_config empty_kind_env (world_with example_path plain_doc_text)
     = (Inr (JObj [(''version'', JStr ''1.4.9'')]),
        \<lparr>files = Map.empty(example_path \<mapsto> plain_doc_text),
         trace = [Stat example_path, ReadText example_path]\<rparr>)"
    by (simp add: read_config_def validate_file_access_def world_with_def decode_text_def e
          emit_def p)
  have m: "merge_updates empty_kind_env (JObj [(''version_increment'', JStr '''')])
             (JObj [(''version'', JStr ''1.4.9'')])
     = Inr (JObj [(''version'', JStr ''1.4.9''),
                  (''lastUpdated'', JStr ''2024-06-01T12:00:00Z'')], [])"
    by (simp add: merge_updates_def version_step_def e example_now_def)
  have t: "encode_text empty_kind_env stamped_doc_text = stamped_doc_text"
    by (simp add: encode_text_def e stamped_doc_text_def)
  have first: "roi_config_apply empty_kind_env
       \<lparr>updates_json = empty_kind_text, user_confirmed = True, create_backup = False\<rparr>
       (world_with example_path plain_doc_text)
     = (Returned (join_lines [''# Update Applied'', ''Changes: 0'',
                              ''Config saved. Backup: None'', []]),
        \<lparr>files = Map.empty(example_path \<mapsto> stamped_doc_text),
         trace = [Stat example_path, ReadText example_path, Stat example_path,
                  WriteText example_path]\<rparr>)"
    by (simp add: roi_config_apply_def e r m write_config_def validate_file_access_def
          emit_def write_text_def t applied_text_def str_nat.simps digit_chr_def)
  have ne: "patch_kind_text \<noteq> over_limit_doc_text"
    by (simp add: patch_kind_text_def over_limit_doc_text_def)
  have o: "ALLOWED_CONFIG_FILE over_limit_env = example_path"
    "utf8_valid over_limit_env = is_ascii"
    "exc_str over_limit_env ValueError = over_limit_message"
    "json_loads over_limit_env over_limit_doc_text
       = Inr (JObj [(''version'', JStr over_limit_version)])"
    "json_loads over_limit_env patch_kind_text
       = Inr (JObj [(''version_increment'', JStr ''patch'')])"
    using ne by (simp_all add: over_limit_env_def example_env_def)
  have op: "is_ascii over_limit_doc_text"
    "universal_newlines over_limit_doc_text = over_limit_doc_text"
    by (simp_all add: over_limit_doc_text_def over_limit_version_def over_limit_patch_def
          universal_newlines_plain)
  have orr: "read_config over_limit_env (world_with example_path over_limit_doc_text)
     = (Inr (JObj [(''version'', JStr over_limit_version)]),
        \<lparr>files = Map.empty(example_path \<mapsto> over_limit_doc_text),
         trace = [Stat example_path, ReadText example_path]\<rparr>)"
    by (simp add: read_config_def validate_file_access_def world_with_def decode_text_def o
          emit_def op)
  have d: "digits ''1''" "digits ''4''" "digits over_limit_patch"
    by (auto simp: digits_def is_digit_def over_limit_patch_def list_all_iff)
  have vp: "version_part ''1''" "version_part ''4''"
    using d by (simp_all add: version_part_def int_max_str_digits_def)
  have sp: "split_str ''.'' over_limit_version = [''1'', ''4'', over_limit_patch]"
    using split_version[OF d] by (simp add: over_limit_version_def)
  have big: "py_int over_limit_env over_limit_patch = Inl ValueError"
    by (rule py_int_over_limit[OF d(3)])
       (simp add: over_limit_patch_def int_max_str_digits_def)
  have om: "merge_updates over_limit_env (JObj [(''version_increment'', JStr ''patch'')])
              (JObj [(''version'', JStr over_limit_version)]) = Inl ValueError"
    by (simp add: merge_updates_def version_step_def gateway_bump_def sp bump_parts_def
          list_index_def py_int_digits vp big)
  have second: "roi_config_apply over_limit_env
       \<lparr>updates_json = patch_kind_text, user_confirmed = True, create_backup = False\<rparr>
       (world_with example_path over_limit_doc_text)
     = (Returned (''Error: '' @ over_limit_message),
        \<lparr>files = Map.empty(example_path \<mapsto> over_limit_doc_text),
         trace = [Stat example_path, ReadText example_path]\<rparr>)"
    by (simp add: roi_config_apply_def o orr om error_result_def)
  have v: "over_limit_version = ''1.4.'' @ replicate 4301 (CHR ''9'')"
    by (simp add: over_limit_version_def over_limit_patch_def)
  from e(6) first o(4)[unfolded v] o(5) second show ?thesis
    by (intro conjI)
qed

text \<open>
  C2, amended: for every document whose version is three dot-joined non-negative
  integers of at most 4300 digits each, when the payload's \<open>version_increment\<close> is present
  and truthy (not \<open>null\<close>, \<open>false\<close>, zero or empty) and the incremented part still has at
  most 4300 digits, the version step succeeds with the new version: minor part plus one
  and patch \<open>0\<close> if the kind is \<open>"minor"\<close>, patch part plus one otherwise; the entry
  \<open>Version: old -> new\<close> is the first change entry, and a merge that succeeds yields a
  document with the new version, which the confirmed call writes to the file while it
  reports the change entries. In particular \<open>"1.4.9"\<close> gives \<open>"1.5.0"\<close> with \<open>"minor"\<close> and
  \<open>"1.4.10"\<close> with \<open>"patch"\<close>. A payload whose \<open>version_increment\<close> is absent or falsy
  leaves the document as it is in the version step and records no entry.
\<close>

theorem version_increment_applied:
  assumes "version_part a" and "version_part b" and "version_part c"
    and "map_of doc ''version'' = Some (JStr (a @ ''.'' @ b @ ''.'' @ c))"
    and "map_of upd ''version_increment'' = Some kind"
    and "py_truthy kind"
    and "if kind = JStr ''minor'' then fits (Suc (nat_of_digits 0 b))
         else fits (Suc (nat_of_digits 0 c))"
  shows
    "let old_version = a @ ''.'' @ b @ ''.'' @ c;
         new_version =
           (if kind = JStr ''minor''
            then str_nat (nat_of_digits 0 a) @ ''.'' @ str_nat (Suc (nat_of_digits 0 b)) @ ''.0''
            else str_nat (nat_of_digits 0 a) @ ''.'' @ str_nat (nat_of_digits 0 b) @ ''.''
                   @ str_nat (Suc (nat_of_digits 0 c)));
         entry = ''Version: '' @ old_version @ '' -> '' @ new_version
     in version_step env (JObj upd) (JObj doc)
          = Inr (JObj (AList.update ''version'' (JStr new_version) doc), [entry]) \<and>
        (\<forall>config' changes.
           merge_updates env (JObj upd) (JObj doc) = Inr (config', changes) \<longrightarrow>
             top_get config' ''version'' = Some (JStr new_version) \<and>
             take 1 changes = [entry] \<and>
             (\<forall>params w w1.
                user_confirmed params \<and>
                json_loads env (updates_json params) = Inr (JObj upd) \<and>
                read_config env w = (Inr (JObj doc), w1) \<longrightarrow>
                (\<exists>result w2.
                   roi_config_apply env params w
                     = (Returned (applied_text changes result), w2) \<and>
                   files w2 (ALLOWED_CONFIG_FILE env)
                     = Some (encode_text env (json_dumps env config'))))) \<and>
        (\<forall>other.
           (\<forall>k. map_of other ''version_increment'' = Some k \<longrightarrow> \<not> py_truthy k) \<longrightarrow>
             version_step env (JObj other) (JObj doc) = Inr (JObj doc, []))"
proof -
  define old_version where "old_version = a @ ''.'' @ b @ ''.'' @ c"
  define new_version where "new_version =
           (if kind = JStr ''minor''
            then str_nat (nat_of_digits 0 a) @ ''.'' @ str_nat (Suc (nat_of_digits 0 b)) @ ''.0''
            else str_nat (nat_of_digits 0 a) @ ''.'' @ str_nat (nat_of_digits 0 b) @ ''.''
                   @ str_nat (Suc (nat_of_digits 0 c)))"
  define entry where "entry = ''Version: '' @ old_version @ '' -> '' @ new_version"
  have b: "gateway_bump env (JStr old_version) kind = Inr new_version"
    unfolding old_version_def new_version_def
    by (rule gateway_bump_digits[OF assms(1-3) assms(7)])
  have vs: "version_step env (JObj upd) (JObj doc)
          = Inr (JObj (AList.update ''version'' (JStr new_version) doc), [entry])"
    using assms(4-6) b[unfolded old_version_def]
    by (simp add: version_step_def old_version_def entry_def)
  have tool: "\<exists>result w2.
       roi_config_apply env params w = (Returned (applied_text changes result), w2) \<and>
       files w2 (ALLOWED_CONFIG_FILE env) = Some (encode_text env (json_dumps env config'))"
    if "merge_updates env (JObj upd) (JObj doc) = Inr (config', changes)"
      and "user_confirmed params \<and>
           json_loads env (updates_json params) = Inr (JObj upd) \<and>
           read_config env w = (Inr (JObj doc), w1)"
    for config' changes params w w1
  proof -
    from that(2) have p: "user_confirmed params"
      "json_loads env (updates_json params) = Inr (JObj upd)"
      "read_config env w = (Inr (JObj doc), w1)"
      by simp_all
    from apply_confirmed[OF p] that(1) show ?thesis by auto
  qed
  have falsy: "version_step env (JObj other) (JObj doc) = Inr (JObj doc, [])"
    if "\<forall>k. map_of other ''version_increment'' = Some k \<longrightarrow> \<not> py_truthy k" for other
    using that assms(4)
    by (cases "map_of other ''version_increment''") (simp_all add: version_step_def)
  have "top_get config' ''version'' = Some (JStr new_version) \<and> take 1 changes = [entry]"
    if m: "merge_updates env (JObj upd) (JObj doc) = Inr (config', changes)"
    for config' changes
  proof -
    from m obtain config2 gpu_items c3 ch3 model_items where
      l: "setitem (JObj (AList.update ''version'' (JStr new_version) doc)) ''lastUpdated''
            (JStr (now_strftime env 0 ''%Y-%m-%dT%H:%M:%SZ'')) = Inr config2" and
      g: "update_category env ''gpuTypes'' ''gpuTypes'' gpu_items (config2, [entry])
            = Inr (c3, ch3)" and
      ma: "update_category env ''modelArchitectures'' ''models'' model_items (c3, ch3)
            = Inr (config', changes)"
      unfolding merge_updates_Inr vs by auto
    have 0: "top_get (JObj (AList.update ''version'' (JStr new_version) doc)) ''version''
               = Some (JStr new_version)"
      by (simp add: top_get_def update_conv')
    from setitem_top_get[OF l, of "''version''"] 0
    have 1: "top_get config2 ''version'' = Some (JStr new_version)" by simp
    from update_category_top_get[OF g, of "''version''"] 1
    have 2: "top_get c3 ''version'' = Some (JStr new_version)" by simp
    from update_category_top_get[OF ma, of "''version''"] 2
    have 3: "top_get config' ''version'' = Some (JStr new_version)" by simp
    from update_category_changes[OF g] obtain x where x: "ch3 = [entry] @ x" by blast
    from update_category_changes[OF ma] obtain y where "changes = ch3 @ y" by blast
    with x have "take 1 changes = [entry]" by simp
    with 3 show ?thesis by simp
  qed
  with vs tool falsy show ?thesis
    unfolding Let_def old_version_def[symmetric] new_version_def[symmetric]
      entry_def[symmetric]
    by blast
qed

theorem version_increment_applied_witness:
  "version_part ''1'' \<and> version_part ''4'' \<and> version_part ''9'' \<and>
   py_truthy (JStr ''minor'') \<and> py_truthy (JStr ''patch'') \<and> \<not> py_truthy (JStr []) \<and>
   fits (Suc (nat_of_digits 0 ''4'')) \<and> fits (Suc (nat_of_digits 0 ''9'')) \<and>
   version_step sample_env (JObj [(''version_increment'', JStr ''minor'')])
       (JObj [(''version'', JStr ''1.4.9'')])
     = Inr (JObj [(''version'', JStr ''1.5.0'')], [''Version: 1.4.9 -> 1.5.0'']) \<and>
   version_step sample_env (JObj [(''version_increment'', JStr ''patch'')])
       (JObj [(''version'', JStr ''1.4.9'')])
     = Inr (JObj [(''version'', JStr ''1.4.10'')], [''Version: 1.4.9 -> 1.4.10'']) \<and>
   version_step sample_env (JObj [(''version_increment'', JStr [])])
       (JObj [(''version'', JStr ''1.4.9'')])
     = Inr (JObj [(''version'', JStr ''1.4.9'')], [])"
proof -
  have d: "version_part ''1''" "version_part ''4''" "version_part ''9''"
    by (simp_all add: version_part_def digits_def is_digit_def int_max_str_digits_def)
  have f: "fits (Suc (nat_of_digits 0 ''4''))" "fits (Suc (nat_of_digits 0 ''9''))"
    by (simp_all add: fits_def digit_val_def str_nat.simps int_max_str_digits_def)
  have t: "py_truthy (JStr ''minor'')" "py_truthy (JStr ''patch'')" "\<not> py_truthy (JStr [])"
    by simp_all
  from version_increment_applied
         [OF d, of "[(''version'', JStr ''1.4.9'')]" "[(''version_increment'', JStr ''minor'')]"
            "JStr ''minor''" sample_env]
    f
  have 1: "version_step sample_env (JObj [(''version_increment'', JStr ''minor'')])
       (JObj [(''version'', JStr ''1.4.9'')])
     = Inr (JObj [(''version'', JStr ''1.5.0'')], [''Version: 1.4.9 -> 1.5.0''])"
    by (simp add: Let_def digit_val_def str_nat.simps digit_chr_def)
  from version_increment_applied
         [OF d, of "[(''version'', JStr ''1.4.9'')]" "[(''version_increment'', JStr ''patch'')]"
            "JStr ''patch''" sample_env]
    f
  have 2: "version_step sample_env (JObj [(''version_increment'', JStr ''patch'')])
       (JObj [(''version'', JStr ''1.4.9'')])
     = Inr (JObj [(''version'', JStr ''1.4.10'')], [''Version: 1.4.9 -> 1.4.10''])"
    "\<forall>other.
       (\<forall>k. map_of other ''version_increment'' = Some k \<longrightarrow> \<not> py_truthy k) \<longrightarrow>
         version_step sample_env (JObj other) (JObj [(''version'', JStr ''1.4.9'')])
           = Inr (JObj [(''version'', JStr ''1.4.9'')], [])"
    by (simp_all add: Let_def digit_val_def str_nat.simps digit_chr_def)
  from 2(2)[rule_format, of "[(''version_increment'', JStr [])]"]
  have 3: "version_step sample_env (JObj [(''version_increment'', JStr [])])
       (JObj [(''version'', JStr ''1.4.9'')])
     = Inr (JObj [(''version'', JStr ''1.4.9'')], [])"
    by simp
  from d f t 1 2(1) 3 show ?thesis by (intro conjI)
qed

text \<open>
  C3. For every confirmed apply call whose \<open>gpuTypes_updates\<close> map contains a key that
  the document's \<open>gpuTypes\<close> map lacks (the category being a dictionary, or missing), that
  entry is silently skipped: processing the entry leaves the document and the change
  list as they are; the call returns the same text and leaves the same world as the call
  whose payload is without the entry; and when the merge succeeds the key is not in the
  \<open>gpuTypes\<close> of the document written.
\<close>

theorem absent_gpu_entry_skipped:
  assumes "user_confirmed params"
    and "json_loads env (updates_json params) = Inr (JObj upd)"
    and "map_of upd ''gpuTypes_updates'' = Some (JObj entries)"
    and "read_config env w = (Inr config, w1)"
    and "key_absent config ''gpuTypes'' name"
  shows "update_category env ''gpuTypes'' ''gpuTypes'' [(name, data)] (config, changes)
           = Inr (config, changes) \<and>
         (\<forall>params'.
            user_confirmed params' \<and> create_backup params' = create_backup params \<and>
            json_loads env (updates_json params')
              = Inr (JObj (AList.update ''gpuTypes_updates''
                             (JObj (filter (\<lambda>e. fst e \<noteq> name) entries)) upd))
            \<longrightarrow> roi_config_apply env params' w = roi_config_apply env params w) \<and>
         (\<forall>config' changes'.
            merge_updates env (JObj upd) config = Inr (config', changes') \<longrightarrow>
              key_absent config' ''gpuTypes'' name \<and>
              (\<exists>result w2.
                 roi_config_apply env params w
                   = (Returned (applied_text changes' result), w2) \<and>
                 files w2 (ALLOWED_CONFIG_FILE env)
                   = Some (encode_text env (json_dumps env config'))))"
proof -
  from key_absent_py_in[OF assms(5)]
  have 1: "update_category env ''gpuTypes'' ''gpuTypes'' [(name, data)] (config, changes)
           = Inr (config, changes)"
    by (auto simp: bind_res_eq_Inr)
  have 2: "roi_config_apply env params' w = roi_config_apply env params w"
    if "user_confirmed params' \<and> create_backup params' = create_backup params \<and>
        json_loads env (updates_json params')
          = Inr (JObj (AList.update ''gpuTypes_updates''
                         (JObj (filter (\<lambda>e. fst e \<noteq> name) entries)) upd))"
    for params'
  proof -
    from that have p: "user_confirmed params'"
      "create_backup params' = create_backup params"
      "json_loads env (updates_json params')
         = Inr (JObj (AList.update ''gpuTypes_updates''
                        (JObj (filter (\<lambda>e. fst e \<noteq> name) entries)) upd))"
      by simp_all
    show ?thesis
      unfolding roi_config_apply_def p(2)
      using p(1,3) assms(1,2,4) merge_updates_skip[OF assms(5) assms(3), of env]
      by simp
  qed
  have 3: "key_absent config' ''gpuTypes'' name \<and>
           (\<exists>result w2.
              roi_config_apply env params w = (Returned (applied_text changes' result), w2) \<and>
              files w2 (ALLOWED_CONFIG_FILE env)
                = Some (encode_text env (json_dumps env config')))"
    if m: "merge_updates env (JObj upd) config = Inr (config', changes')" for config' changes'
    using merge_updates_absent[OF m assms(5)] apply_confirmed[OF assms(1,2,4)] m
    by auto
  from 1 2 3 show ?thesis by blast
qed

theorem absent_gpu_entry_skipped_witness:
  "user_confirmed sample_params \<and>
   json_loads sample_env (updates_json sample_params) = Inr sample_payload \<and>
   read_config sample_env (world_with example_path sample_doc_text)
     = (Inr sample_doc, sample_world1) \<and>
   key_absent sample_doc ''gpuTypes'' ''B300'' \<and>
   update_category sample_env ''gpuTypes'' ''gpuTypes'' [(''B300'', JObj [(''price'', JInt 1)])]
       (sample_doc, [])
     = Inr (sample_doc, []) \<and>
   roi_config_apply sample_env sample_params_known (world_with example_path sample_doc_text)
     = roi_config_apply sample_env sample_params (world_with example_path sample_doc_text) \<and>
   merge_updates sample_env sample_payload sample_doc
     = Inr (sample_result, [''Version: 1.4.9 -> 1.5.0'', ''gpuTypes.H100.price: 25000'']) \<and>
   key_absent sample_result ''gpuTypes'' ''B300''"
proof -
  have a: "key_absent sample_doc ''gpuTypes'' ''B300''"
    by (simp add: sample_doc_def sample_items_def)
  have u: "map_of [(''version_increment'', JStr ''minor''),
                   (''gpuTypes_updates'',
                    JObj [(''H100'', JObj [(''price'', JInt 25000)]),
                          (''B300'', JObj [(''price'', JInt 1)])])] ''gpuTypes_updates''
             = Some (JObj [(''H100'', JObj [(''price'', JInt 25000)]),
                           (''B300'', JObj [(''price'', JInt 1)])])"
    by simp
  have c: "user_confirmed sample_params"
    "json_loads sample_env (updates_json sample_params) = Inr sample_payload"
    by (simp_all add: sample_params_def sample_loads)
  have k: "user_confirmed sample_params_known"
    "create_backup sample_params_known = create_backup sample_params"
    "json_loads sample_env (updates_json sample_params_known) = Inr sample_payload_known"
    by (simp_all add: sample_params_known_def sample_params_def sample_loads)
  from absent_gpu_entry_skipped
         [OF c(1) c(2)[unfolded sample_payload_def] u sample_read a,
          of "JObj [(''price'', JInt 1)]" "[]"]
    sample_merge[unfolded sample_payload_def] k
  have "update_category sample_env ''gpuTypes'' ''gpuTypes''
          [(''B300'', JObj [(''price'', JInt 1)])] (sample_doc, []) = Inr (sample_doc, [])"
    and "roi_config_apply sample_env sample_params_known
           (world_with example_path sample_doc_text)
         = roi_config_apply sample_env sample_params (world_with example_path sample_doc_text)"
    and "key_absent sample_result ''gpuTypes'' ''B300''"
    by (simp_all add: sample_payload_known_def)
  with c sample_read a sample_merge show ?thesis by simp
qed

text \<open>
  C4: for every valid document, a confirmed apply call with the empty payload changes
  only \<open>lastUpdated\<close> and, with the backup flag, produces exactly one backup file whose
  contents are byte-identical to the prior file. The code keeps the first two parts for
  every document (lemma \<open>empty_payload_frame\<close>) and misses the third: \<open>_write_config\<close>
  makes the backup by reading the file in text mode and writing the text back (lines 54
  to 58), so line endings are translated on the way, where \<open>_get_file_hash\<close> reads the
  same file's bytes (mode \<open>"rb"\<close>, line 41). For the document \<open>full_doc_items\<close> stored
  with \<open>CR LF\<close> line endings the call leaves the version and every category as they were,
  writes one backup file, and the backup ends its lines with \<open>LF\<close>: it is not the prior
  file.
\<close>

theorem crlf_backup_differs:
  "files (world_with example_path full_doc_crlf) example_path = Some full_doc_crlf \<and>
   decode_text full_doc_env full_doc_crlf = Inr full_doc_lf \<and>
   json_loads full_doc_env full_doc_lf = Inr (JObj full_doc_items) \<and>
   json_loads full_doc_env (updates_json empty_payload_backup) = Inr (JObj []) \<and>
   user_confirmed empty_payload_backup \<and> create_backup empty_payload_backup \<and>
   fst (roi_config_apply full_doc_env empty_payload_backup
          (world_with example_path full_doc_crlf))
     = Returned (join_lines
                   [''# Update Applied'', ''Changes: 0'',
                    ''Config saved. Backup: /data/roi-config Rev 08.json.backup-20240601-120000'',
                    []]) \<and>
   files (snd (roi_config_apply full_doc_env empty_payload_backup
                 (world_with example_path full_doc_crlf)))
     = Map.empty (example_path \<mapsto> full_doc_crlf,
                  example_backup_path \<mapsto> full_doc_lf,
                  example_path \<mapsto> full_doc_stamped_text) \<and>
   json_dumps full_doc_env full_doc_stamped = full_doc_stamped_text \<and>
   full_doc_stamped
     = JObj (AList.update ''lastUpdated'' (JStr ''2024-06-01T12:00:00Z'') full_doc_items) \<and>
   full_doc_lf \<noteq> full_doc_crlf"
proof -
  have ne: "''{}'' \<noteq> full_doc_lf"
    by (simp add: full_doc_lf_def full_doc_lines_def)
  have e: "ALLOWED_CONFIG_FILE full_doc_env = example_path"
    "utf8_valid full_doc_env = is_ascii" "os_linesep full_doc_env = [LF]"
    "now_strftime full_doc_env = example_now"
    "json_loads full_doc_env ''{}'' = Inr (JObj [])"
    "json_loads full_doc_env full_doc_lf = Inr (JObj full_doc_items)"
    "json_dumps full_doc_env full_doc_stamped = full_doc_stamped_text"
    using ne by (simp_all add: full_doc_env_def example_env_def)
  have d: "decode_text full_doc_env full_doc_crlf = Inr full_doc_lf"
    by (simp add: decode_text_def e full_doc_crlf_def full_doc_lf_def full_doc_lines_def)
  have differ: "full_doc_lf \<noteq> full_doc_crlf"
    by (simp add: full_doc_crlf_def full_doc_lf_def full_doc_lines_def)
  have f: "files (world_with example_path full_doc_crlf) (ALLOWED_CONFIG_FILE full_doc_env)
             = Some full_doc_crlf"
    by (simp add: world_with_def e)
  have c: "user_confirmed empty_payload_backup" "create_backup empty_payload_backup"
    "json_loads full_doc_env (updates_json empty_payload_backup) = Inr (JObj [])"
    by (simp_all add: empty_payload_backup_def e)
  have s: "full_doc_stamped
     = JObj (AList.update ''lastUpdated'' (JStr ''2024-06-01T12:00:00Z'') full_doc_items)"
    by (simp add: full_doc_items_def full_doc_stamped_def)
  have r: "read_config full_doc_env (world_with example_path full_doc_crlf)
     = (Inr (JObj full_doc_items),
        emit (ReadText example_path) (emit (Stat example_path)
          (world_with example_path full_doc_crlf)))"
    using f d e(6) by (simp add: read_config_Inr e(1))
  have m: "merge_updates full_doc_env (JObj []) (JObj full_doc_items)
     = Inr (full_doc_stamped, [])"
    by (simp add: merge_empty_payload e example_now_def s)
  have t: "encode_text full_doc_env body = body" for body
    by (rule encode_text_plain) (simp add: e)
  have b: "example_path @ ''.backup-'' @ example_now k ''%Y%m%d-%H%M%S''
             = example_backup_path"
    "''Config saved. Backup: '' @ example_backup_path
       = ''Config saved. Backup: /data/roi-config Rev 08.json.backup-20240601-120000''" for k
    by (simp_all add: example_now_def example_path_def example_backup_path_def)
  have w: "write_config full_doc_env full_doc_stamped True
             (emit (ReadText example_path) (emit (Stat example_path)
                (world_with example_path full_doc_crlf)))
     = (Inr ''Config saved. Backup: /data/roi-config Rev 08.json.backup-20240601-120000'',
        write_text full_doc_env example_path full_doc_stamped_text
          (write_text full_doc_env example_backup_path full_doc_lf
             (emit (ReadText example_path) (emit (Stat example_path)
                (emit (ReadText example_path) (emit (Stat example_path)
                   (world_with example_path full_doc_crlf)))))))"
    using f d
    by (simp add: write_config_def validate_file_access_def e(1) e(4) e(7) Let_def b
          del: append.simps)
  have a: "roi_config_apply full_doc_env empty_payload_backup
             (world_with example_path full_doc_crlf)
     = (Returned (applied_text []
          ''Config saved. Backup: /data/roi-config Rev 08.json.backup-20240601-120000''),
        write_text full_doc_env example_path full_doc_stamped_text
          (write_text full_doc_env example_backup_path full_doc_lf
             (emit (ReadText example_path) (emit (Stat example_path)
                (emit (ReadText example_path) (emit (Stat example_path)
                   (world_with example_path full_doc_crlf)))))))"
    by (simp only: roi_config_apply_def c r m w prod.case sum.case if_True if_False
          not_True_eq_False)
  have p1: "fst (roi_config_apply full_doc_env empty_payload_backup
                   (world_with example_path full_doc_crlf))
     = Returned (join_lines
                   [''# Update Applied'', ''Changes: 0'',
                    ''Config saved. Backup: /data/roi-config Rev 08.json.backup-20240601-120000'',
                    []])"
    by (simp add: a applied_text_def str_nat.simps digit_chr_def)
  have p0: "files (snd (roi_config_apply full_doc_env empty_payload_backup
                          (world_with example_path full_doc_crlf)))
     = (files (world_with example_path full_doc_crlf))
         (example_backup_path \<mapsto> full_doc_lf, example_path \<mapsto> full_doc_stamped_text)"
    by (simp add: a t)
  have p2: "files (snd (roi_config_apply full_doc_env empty_payload_backup
                          (world_with example_path full_doc_crlf)))
     = Map.empty (example_path \<mapsto> full_doc_crlf,
                  example_backup_path \<mapsto> full_doc_lf,
                  example_path \<mapsto> full_doc_stamped_text)"
    unfolding p0 by (simp add: world_with_def)
  have f0: "files (world_with example_path full_doc_crlf) example_path = Some full_doc_crlf"
    by (simp add: world_with_def)
  from f0 d e(6) c(3) c(1) c(2) p1 p2 e(7) s differ show ?thesis
    by (intro conjI)
qed

text \<open>
  C5 says that every Gateway tool catches every exception and returns a text. The read
  and apply tools do (\<open>roi_config_read_returns\<close>, \<open>roi_config_apply_returns\<close>); the
  research and status tools have no \<open>try\<close> block. With the configuration file missing,
  \<open>roi_config_research\<close> lets \<open>FileNotFoundError\<close> escape to its caller; with a file
  that is not JSON, \<open>roi_config_status\<close> lets \<open>JSONDecodeError\<close> escape.
\<close>

theorem research_and_status_raise:
  "roi_config_research sample_env \<lparr>categories = Some ''all''\<rparr> empty_world
     = (Raised (FileNotFoundError (''Config file not found: '' @ example_path)),
        \<lparr>files = Map.empty, trace = [Stat example_path]\<rparr>) \<and>
   roi_config_status sample_env (world_with example_path ''not json'')
     = (Raised (JSONDecodeError ''Expecting value''),
        \<lparr>files = Map.empty(example_path \<mapsto> ''not json''),
         trace = [Stat example_path, Stat example_path, ReadText example_path]\<rparr>)"
  by (simp add: roi_config_research_def roi_config_status_def read_config_def
        validate_file_access_def empty_world_def world_with_def emit_def decode_text_def
        is_ascii_def sample_env_def example_env_def sample_doc_text_def
        sample_payload_text_def sample_payload_known_text_def)

text \<open>
  C6: in the Batch Updater, whenever the API response is parsed as a JSON object, the run
  applies the version-increment rule, stamps \<open>lastUpdated\<close>, writes the document back and
  exits with status 0. The code sets out to do that (lines 48 to 57, 72 to 86 and 104 to
  118) and never gets there: \<open>UPDATE_PROMPT.format\<close> (lines 41 to 44) raises \<open>KeyError\<close> on
  the literal braces of the template, nothing in \<open>get_claude_updates\<close> or \<open>main\<close> catches
  it, and the run ends before the API is called. With the configuration file holding the
  document \<open>full_doc_items\<close> of version \<open>"1.4.9"\<close>, the client built and an API that would
  answer with \<open>{"version_increment": "patch", ...}\<close>, the run prints its first four lines,
  ends with the uncaught \<open>KeyError\<close>, that is with status 1, and leaves the file as it
  was.
\<close>

theorem batch_run_stops_at_prompt:
  "files (world_with CONFIG_FILE full_doc_lf) CONFIG_FILE = Some full_doc_lf \<and>
   json_loads answering_env full_doc_lf = Inr (JObj full_doc_items) \<and>
   anthropic_client answering_env = None \<and>
   messages_create answering_env = (\<lambda>prompt. Inr bump_reply) \<and>
   main answering_env (world_with CONFIG_FILE full_doc_lf)
     = (Uncaught (KeyError ([LF] @ ''  \"version_increment\"'')),
        \<lparr>files = Map.empty(CONFIG_FILE \<mapsto> full_doc_lf),
         trace = [Stat CONFIG_FILE, ReadText CONFIG_FILE]\<rparr>,
        [''=== Weekly ROI Calculator Update ==='',
         ''Date: 2024-06-01 12:00:00'',
         ''Current version: 1.4.9'',
         ''Fetching updates from Claude API...'']) \<and>
   exit_status (fst (main answering_env (world_with CONFIG_FILE full_doc_lf))) = 1"
proof -
  have e: "json_loads answering_env full_doc_lf = Inr (JObj full_doc_items)"
    "anthropic_client answering_env = None"
    "messages_create answering_env = (\<lambda>prompt. Inr bump_reply)"
    "utf8_valid answering_env = is_ascii"
    "now_strftime answering_env = example_now"
    by (simp_all add: answering_env_def example_env_def)
  have f: "files (world_with CONFIG_FILE full_doc_lf) CONFIG_FILE = Some full_doc_lf"
    by (simp add: world_with_def)
  have d: "decode_text answering_env full_doc_lf = Inr full_doc_lf"
    by (simp add: decode_text_def e full_doc_lf_def full_doc_lines_def)
  have v: "dict_get (JObj full_doc_items) ''version'' (JStr ''unknown'') = Inr (JStr ''1.4.9'')"
    "map_of full_doc_items ''version'' = Some (JStr ''1.4.9'')"
    by (simp_all add: full_doc_items_def)
  have g: "get_claude_updates answering_env (JObj full_doc_items)
             = Inl (KeyError ([LF] @ ''  \"version_increment\"''))"
    by (simp add: get_claude_updates_def e v format_prompt_raises)
  have m: "main answering_env (world_with CONFIG_FILE full_doc_lf)
     = (Uncaught (KeyError ([LF] @ ''  \"version_increment\"'')),
        \<lparr>files = Map.empty(CONFIG_FILE \<mapsto> full_doc_lf),
         trace = [Stat CONFIG_FILE, ReadText CONFIG_FILE]\<rparr>,
        [''=== Weekly ROI Calculator Update ==='',
         ''Date: 2024-06-01 12:00:00'',
         ''Current version: 1.4.9'',
         ''Fetching updates from Claude API...''])"
    using f
    by (simp add: main_def Let_def d e v g example_now_def emit_def world_with_def)
  from f e(1-3) m show ?thesis by simp
qed

text \<open>
  C7 as stated: for every document the read operation with section \<open>metadata\<close> returns
  exactly the two-field object and nothing else. The operation returns a rendering: the
  JSON format wraps the object in an envelope with the file's fingerprint, the markdown
  format (the default) puts two header lines first and keeps only the first 3000
  characters of the object's serialisation. For a document whose major version number has 3000 digits
  the markdown answer stops inside the version: of the 3064 characters of the object it
  holds 3000, and \<open>lastUpdated\<close> is not in it.
\<close>

theorem read_metadata_truncated_counterexample:
  "fst (roi_config_read long_env metadata_markdown (world_with example_path long_doc_text))
     = Returned (''# ROI Config'' @ [LF] @ ''Version: '' @ long_version @ [LF]
                   @ ''{'' @ [LF] @ ''  \"version\": \"'' @ replicate 2984 (CHR ''9'')) \<and>
   json_dumps long_env long_data = long_data_text \<and>
   length long_data_text = 3064 \<and>
   length (''{'' @ [LF] @ ''  \"version\": \"'' @ replicate 2984 (CHR ''9'')) = 3000"
proof -
  have e: "ALLOWED_CONFIG_FILE long_env = example_path" "utf8_valid long_env = is_ascii"
    "json_loads long_env long_doc_text = Inr long_doc"
    "json_dumps long_env long_data = long_data_text"
    by (simp_all add: long_env_def example_env_def)
  have d: "decode_text long_env long_doc_text = Inr long_doc_text"
    by (simp add: decode_text_def e long_doc_text_plain)
  have f: "files (world_with example_path long_doc_text) (ALLOWED_CONFIG_FILE long_env)
             = Some long_doc_text"
    by (simp add: world_with_def e)
  have "fst (roi_config_read long_env metadata_markdown (world_with example_path long_doc_text))
     = Returned (''# ROI Config'' @ [LF] @ ''Version: '' @ long_version @ [LF]
                   @ take 3000 long_data_text)"
    using read_metadata_rendering[OF f d e(3)[unfolded long_doc_def], of metadata_markdown]
    by (simp add: metadata_markdown_def e(4)[unfolded long_data_def])
  moreover have "length long_data_text = 3064"
    by (simp add: long_data_text_def long_version_def)
  ultimately show ?thesis
    by (simp add: take_long_data_text e)
qed

text \<open>
  C7, amended: for every document (a JSON object) the read operation with section
  \<open>metadata\<close> selects exactly the two-field object \<open>{version, lastUpdated}\<close> drawn from
  the document (\<open>null\<close> for a missing field) and nothing else of the document; it
  returns it as \<open>data\<close> of the JSON envelope \<open>{file_hash, data}\<close>, or, in markdown
  format, as the first 3000 characters of its serialisation after the lines
  \<open># ROI Config\<close> and \<open>Version: ...\<close>. On the specification's example the object is
  \<open>{"version":"2.1.0","lastUpdated":"2024-01-01T00:00:00Z"}\<close>.
\<close>

theorem read_metadata:
  assumes "files w (ALLOWED_CONFIG_FILE env) = Some raw"
    and "decode_text env raw = Inr body"
    and "json_loads env body = Inr (JObj doc)"
    and "section_arg params = Some ''metadata''"
  shows "fst (roi_config_read env params w) =
     Returned
       (let version = (case map_of doc ''version'' of Some v \<Rightarrow> v | None \<Rightarrow> JNull);
            lastUpdated = (case map_of doc ''lastUpdated'' of Some l \<Rightarrow> l | None \<Rightarrow> JNull);
            data = JObj [(''version'', version), (''lastUpdated'', lastUpdated)]
        in if response_format params = JSON
           then json_dumps env
                  (JObj [(''file_hash'', JStr (take 12 (sha256_hexdigest env raw))),
                         (''data'', data)])
           else ''# ROI Config'' @ [LF] @ ''Version: '' @ py_str env version @ [LF]
                  @ take 3000 (json_dumps env data))"
  using assms by (rule read_metadata_rendering)

theorem read_metadata_witness:
  "files (world_with example_path spec_doc_text) (ALLOWED_CONFIG_FILE spec_env)
     = Some spec_doc_text \<and>
   decode_text spec_env spec_doc_text = Inr spec_doc_text \<and>
   json_loads spec_env spec_doc_text = Inr (JObj spec_doc_items) \<and>
   section_arg metadata_json = Some ''metadata'' \<and>
   section_arg metadata_markdown = Some ''metadata'' \<and>
   fst (roi_config_read spec_env metadata_json (world_with example_path spec_doc_text))
     = Returned spec_envelope_text \<and>
   fst (roi_config_read spec_env metadata_markdown (world_with example_path spec_doc_text))
     = Returned (''# ROI Config'' @ [LF] @ ''Version: 2.1.0'' @ [LF] @ spec_data_text)"
proof -
  have e: "ALLOWED_CONFIG_FILE spec_env = example_path" "utf8_valid spec_env = is_ascii"
    "json_loads spec_env spec_doc_text = Inr (JObj spec_doc_items)"
    "json_dumps spec_env spec_data = spec_data_text"
    "json_dumps spec_env (JObj [(''file_hash'', JStr ''000000000000''), (''data'', spec_data)])
       = spec_envelope_text"
    "sha256_hexdigest spec_env = (\<lambda>s. replicate 64 (CHR ''0''))"
    by (simp_all add: spec_env_def example_env_def spec_data_def)
  have f: "files (world_with example_path spec_doc_text) (ALLOWED_CONFIG_FILE spec_env)
             = Some spec_doc_text"
    by (simp add: world_with_def e)
  have d: "decode_text spec_env spec_doc_text = Inr spec_doc_text"
    by (simp add: decode_text_def e spec_doc_text_def universal_newlines_plain)
  have s: "section_arg metadata_json = Some ''metadata''"
    "section_arg metadata_markdown = Some ''metadata''"
    by (simp_all add: metadata_json_def metadata_markdown_def)
  have l: "take 3000 spec_data_text = spec_data_text"
    by (simp add: spec_data_text_def)
  have h: "replicate 12 (CHR ''0'') = ''000000000000''"
    by (simp add: numeral_eq_Suc)
  from read_metadata[OF f d e(3) s(1)] read_metadata[OF f d e(3) s(2)] l
  have "fst (roi_config_read spec_env metadata_json (world_with example_path spec_doc_text))
          = Returned spec_envelope_text"
    and "fst (roi_config_read spec_env metadata_markdown
                (world_with example_path spec_doc_text))
          = Returned (''# ROI Config'' @ [LF] @ ''Version: 2.1.0'' @ [LF] @ spec_data_text)"
    by (simp_all add: metadata_json_def metadata_markdown_def spec_doc_items_def
          e(4)[unfolded spec_data_def] e(5)[unfolded spec_data_def] e(6) h)
  with f d e(3) s show ?thesis by simp
qed

text \<open>
  C8. In the Batch Updater, for every API response that cannot be parsed as JSON after the
  optional fenced-code delimiter is stripped, the run reports failure (it prints the
  parser's message and \<open>Failed to get updates from Claude API\<close>), exits with status 1,
  and leaves the world as it was: no file is written, the configuration file is byte for
  byte what it was. Whatever exception the parser raises, the status is 1 and the world
  is unchanged. The text handed to the parser always exists; the run is taken from the
  moment the API has answered.
\<close>

theorem unparseable_response_fails_run:
  "\<exists>json_str. fenced_body response_text = Inr json_str \<and>
     (\<forall>m. json_loads env (py_strip env json_str) = Inl (JSONDecodeError m) \<longrightarrow>
        main_from_response env config response_text w out
          = (Exit 1, w,
             out @ [''Failed to parse response: '' @ m,
                    ''Failed to get updates from Claude API''])) \<and>
     (\<forall>e. json_loads env (py_strip env json_str) = Inl e \<longrightarrow>
        exit_status (fst (main_from_response env config response_text w out)) = 1 \<and>
        fst (snd (main_from_response env config response_text w out)) = w)"
proof -
  from fenced_body_total obtain json_str where f: "fenced_body response_text = Inr json_str"
    by blast
  have 1: "main_from_response env config response_text w out
          = (Exit 1, w,
             out @ [''Failed to parse response: '' @ m,
                    ''Failed to get updates from Claude API''])"
    if "json_loads env (py_strip env json_str) = Inl (JSONDecodeError m)" for m
    using that f by (simp add: main_from_response_def parse_response_def main_finish_def)
  have 2: "exit_status (fst (main_from_response env config response_text w out)) = 1 \<and>
        fst (snd (main_from_response env config response_text w out)) = w"
    if "json_loads env (py_strip env json_str) = Inl e" for e
    using that f
    by (cases e) (simp_all add: main_from_response_def parse_response_def main_finish_def)
  from f 1 2 show ?thesis by blast
qed

theorem unparseable_response_fails_run_witness:
  "fenced_body fenced_reply = Inr ([LF] @ ''{oops'' @ [LF]) \<and>
   json_loads sample_env (py_strip sample_env ([LF] @ ''{oops'' @ [LF]))
     = Inl (JSONDecodeError ''Expecting value'') \<and>
   main_from_response sample_env sample_doc fenced_reply
       (world_with CONFIG_FILE sample_doc_text) []
     = (Exit 1, world_with CONFIG_FILE sample_doc_text,
        [''Failed to parse response: Expecting value'',
         ''Failed to get updates from Claude API''])"
proof -
  have f: "fenced_body fenced_reply = Inr ([LF] @ ''{oops'' @ [LF])"
    by (simp add: fenced_body_def fenced_reply_def fence_json_def fence_def list_index_def)
  have l: "json_loads sample_env (py_strip sample_env ([LF] @ ''{oops'' @ [LF]))
             = Inl (JSONDecodeError ''Expecting value'')"
    by (simp add: py_strip_def is_ascii_def strip_with_def is_py_space_def sample_env_def
          example_env_def sample_doc_text_def sample_payload_text_def sample_payload_known_text_def)
  from unparseable_response_fails_run
         [of fenced_reply sample_env sample_doc "world_with CONFIG_FILE sample_doc_text" "[]"]
    f l
  show ?thesis by auto
qed




text \<open>
  C10. For every update payload and every document, a confirmed apply call never modifies
  the document's \<open>hardware\<close> or \<open>storageOptions\<close> categories. With the payload parsed to
  \<open>updates\<close> and the document read as \<open>config\<close>, either the merge fails, the error text
  is returned and no file changes, or the file receives the serialisation of a document
  that agrees with \<open>config\<close> on \<open>hardware\<close>, on \<open>storageOptions\<close> and on every other
  top-level key except \<open>version\<close>, \<open>lastUpdated\<close>, \<open>gpuTypes\<close> and
  \<open>modelArchitectures\<close>.
\<close>

theorem apply_leaves_hardware_and_storage:
  assumes "user_confirmed params"
    and "json_loads env (updates_json params) = Inr updates"
    and "read_config env w = (Inr config, w1)"
  shows "case merge_updates env updates config of
           Inl e \<Rightarrow>
             roi_config_apply env params w = (error_result env e, w1) \<and> files w1 = files w
         | Inr (config', changes) \<Rightarrow>
             (\<exists>result w2.
                roi_config_apply env params w = (Returned (applied_text changes result), w2) \<and>
                files w2 (ALLOWED_CONFIG_FILE env)
                  = Some (encode_text env (json_dumps env config'))) \<and>
             top_get config' ''hardware'' = top_get config ''hardware'' \<and>
             top_get config' ''storageOptions'' = top_get config ''storageOptions'' \<and>
             (\<forall>k. k \<notin> {''version'', ''lastUpdated'', ''gpuTypes'', ''modelArchitectures''}
                \<longrightarrow> top_get config' k = top_get config k)"
proof (cases "merge_updates env updates config")
  case (Inl e)
  with apply_confirmed[OF assms] read_config_files[OF assms(3)]
  show ?thesis by simp
next
  case (Inr st)
  obtain config' changes where st: "st = (config', changes)" by (cases st)
  have m: "merge_updates env updates config = Inr (config', changes)"
    using Inr st by simp
  have frame: "top_get config' k = top_get config k"
    if "k \<notin> {''version'', ''lastUpdated'', ''gpuTypes'', ''modelArchitectures''}" for k
    using merge_updates_frame[OF m, of k] that by simp
  have "top_get config' ''hardware'' = top_get config ''hardware''"
    and "top_get config' ''storageOptions'' = top_get config ''storageOptions''"
    by (rule frame, simp)+
  moreover from apply_confirmed[OF assms] m
  have "\<exists>result w2.
          roi_config_apply env params w = (Returned (applied_text changes result), w2) \<and>
          files w2 (ALLOWED_CONFIG_FILE env)
            = Some (encode_text env (json_dumps env config'))"
    by auto
  ultimately show ?thesis using frame by (simp add: m)
qed

theorem apply_leaves_hardware_and_storage_witness:
  "user_confirmed sample_params \<and>
   json_loads sample_env (updates_json sample_params) = Inr sample_payload \<and>
   read_config sample_env (world_with example_path sample_doc_text)
     = (Inr sample_doc, sample_world1) \<and>
   merge_updates sample_env sample_payload sample_doc
     = Inr (sample_result, [''Version: 1.4.9 -> 1.5.0'', ''gpuTypes.H100.price: 25000'']) \<and>
   top_get sample_result ''hardware'' = top_get sample_doc ''hardware'' \<and>
   top_get sample_result ''hardware'' = Some (JObj [(''dpu'', JInt 1)]) \<and>
   top_get sample_result ''storageOptions'' = top_get sample_doc ''storageOptions'' \<and>
   top_get sample_result ''storageOptions'' = Some (JObj [(''nvme'', JInt 2)])"
proof -
  have vals:
    "top_get sample_result ''hardware'' = Some (JObj [(''dpu'', JInt 1)])"
    "top_get sample_result ''storageOptions'' = Some (JObj [(''nvme'', JInt 2)])"
    by (simp_all add: top_get_def sample_result_def)
  show ?thesis
    using apply_leaves_hardware_and_storage
            [of sample_params sample_env sample_payload
                "world_with example_path sample_doc_text" sample_doc sample_world1]
      vals
    by (simp add: sample_params_def sample_loads sample_read sample_merge)
qed

end
